theory Spec2Isabelle
  imports
    Complex_Main
    "HOL-Library.Sublist"
    "HOL-Library.Multiset"
    "HOL-Library.List_Lexorder"
    "HOL-Library.Char_ord"
begin

section \<open>JavaScript strings and numbers\<close>

text \<open>
  A JavaScript string is modelled as a \<^typ>\<open>string\<close> whose characters stand for ASCII code
  units. The case mappings below change the letters \<open>a\<close>..\<open>z\<close> and \<open>A\<close>..\<open>Z\<close> and leave every
  other character alone; case mapping of non-ASCII text is not modelled.
\<close>

definition lowerLetters :: string where
  "lowerLetters = ''abcdefghijklmnopqrstuvwxyz''"

definition upperLetters :: string where
  "upperLetters = ''ABCDEFGHIJKLMNOPQRSTUVWXYZ''"

definition toUpperChar :: "char \<Rightarrow> char" where
  "toUpperChar c = (case map_of (zip lowerLetters upperLetters) c of Some u \<Rightarrow> u | None \<Rightarrow> c)"

definition toLowerChar :: "char \<Rightarrow> char" where
  "toLowerChar c = (case map_of (zip upperLetters lowerLetters) c of Some l \<Rightarrow> l | None \<Rightarrow> c)"

definition toUpperCase :: "string \<Rightarrow> string" where
  "toUpperCase s = map toUpperChar s"

definition toLowerCase :: "string \<Rightarrow> string" where
  "toLowerCase s = map toLowerChar s"

text \<open>\<open>hay.includes(needle)\<close>: the needle occurs as a contiguous run of the haystack.\<close>

fun str_includes :: "string \<Rightarrow> string \<Rightarrow> bool" where
  "str_includes [] needle = (needle = [])"
| "str_includes (c # cs) needle = (prefix needle (c # cs) \<or> str_includes cs needle)"

text \<open>
  \<open>text.replace(/\\n/g, '\n')\<close>: one pass from the left; each backslash directly followed by
  the letter \<open>n\<close> becomes one line feed, and scanning goes on after the pair.
\<close>

fun replace_backslash_n :: "string \<Rightarrow> string" where
  "replace_backslash_n (c # d # cs) =
     (if c = CHR 0x5C \<and> d = CHR ''n'' then CHR 0x0A # replace_backslash_n cs
      else c # replace_backslash_n (d # cs))"
| "replace_backslash_n cs = cs"

text \<open>Truthiness of a \<open>string | null\<close> value: neither null nor the empty string.\<close>

fun truthy :: "string option \<Rightarrow> bool" where
  "truthy None = False"
| "truthy (Some s) = (s \<noteq> [])"

text \<open>Decimal rendering of a non-negative integer, as a template literal prints it.\<close>

definition digitChar :: "nat \<Rightarrow> char" where
  "digitChar d = ''0123456789'' ! d"

fun showNat :: "nat \<Rightarrow> string" where
  "showNat n = (if n < 10 then [digitChar n] else showNat (n div 10) @ [digitChar (n mod 10)])"

declare showNat.simps [simp del]

text \<open>\<open>xs.join(sep)\<close>.\<close>

fun join :: "string \<Rightarrow> string list \<Rightarrow> string" where
  "join sep [] = []"
| "join sep [x] = x"
| "join sep (x # y # ys) = x @ sep @ join sep (y # ys)"

text \<open>
  \<open>parseInt(s, 10)\<close>: leading white space is skipped, one sign is accepted, then the longest
  run of decimal digits is read; with no digit the result is NaN (\<open>None\<close>). Whatever follows
  the digits is ignored. The result is an exact integer (a double is exact up to \<open>2^53\<close>).
\<close>

definition isWhiteSpace :: "char \<Rightarrow> bool" where
  "isWhiteSpace c = (let n = (of_char c :: nat) in (9 \<le> n \<and> n \<le> 13) \<or> n = 32)"

definition isDigit :: "char \<Rightarrow> bool" where
  "isDigit c = (let n = (of_char c :: nat) in 48 \<le> n \<and> n \<le> 57)"

definition digitVal :: "char \<Rightarrow> nat" where
  "digitVal c = of_char c - 48"

definition decimal :: "string \<Rightarrow> nat" where
  "decimal ds = foldl (\<lambda>acc c. 10 * acc + digitVal c) 0 ds"

definition parseDigits :: "string \<Rightarrow> nat option" where
  "parseDigits s = (let ds = takeWhile isDigit s in if ds = [] then None else Some (decimal ds))"

definition parseInt :: "string \<Rightarrow> int option" where
  "parseInt s =
     (case dropWhile isWhiteSpace s of
        [] \<Rightarrow> None
      | c # cs \<Rightarrow>
          if c = CHR ''-'' then map_option (\<lambda>n. - int n) (parseDigits cs)
          else if c = CHR ''+'' then map_option int (parseDigits cs)
          else map_option int (parseDigits (c # cs)))"

text \<open>\<open>s.trim()\<close>: white space is removed at both ends.\<close>

definition trim :: "string \<Rightarrow> string" where
  "trim s = rev (dropWhile isWhiteSpace (rev (dropWhile isWhiteSpace s)))"


section \<open>The quiz component (submit-all)\<close>

text \<open>
  \<open>QuizQuestion\<close> and \<open>QuizState\<close> of the quiz component. The fields carry the prefix
  \<open>qz_\<close> because the browse component below has a record with the same field names.
  \<open>selectedAnswers\<close> is the object keyed by question index: a missing key reads as
  \<open>undefined\<close>, here \<open>None\<close>.
\<close>

record QuizQuestion =
  qz_id :: nat
  qz_paper :: "string option"
  qz_passage :: "string option"
  qz_question :: "string option"
  qz_option_a :: "string option"
  qz_option_b :: "string option"
  qz_option_c :: "string option"
  qz_option_d :: "string option"
  qz_correct_option :: "string option"
  qz_explanation :: "string option"
  qz_subject :: "string option"
  qz_topic :: "string option"
  qz_year :: "string option"

record QuizState =
  questions :: "QuizQuestion list"
  qz_currentIndex :: nat
  selectedAnswers :: "nat \<rightharpoonup> string"
  submitted :: bool
  score :: nat

text \<open>
  A row decoded with \<open>header: true\<close> and no dynamic typing: every cell is a string, a column
  the row lacks reads as \<open>undefined\<close> (\<open>None\<close>).
\<close>

type_synonym quiz_row = "string \<rightharpoonup> string"

text \<open>\<open>row.X || null\<close> of the first quiz variant: an absent or empty cell becomes null.\<close>

definition orNull :: "string option \<Rightarrow> string option" where
  "orNull v = (if truthy v then v else None)"

text \<open>\<open>row.X?.replace(/\\n/g, '\n') || null\<close> of the second quiz variant.\<close>

definition replacedOrNull :: "string option \<Rightarrow> string option" where
  "replacedOrNull v = orNull (map_option replace_backslash_n v)"

text \<open>The row mapping of \<open>handleFileUpload\<close>, first variant (no escape conversion).\<close>

definition quizRow1 :: "quiz_row \<Rightarrow> nat \<Rightarrow> QuizQuestion" where
  "quizRow1 row index =
     \<lparr> qz_id = index + 1,
       qz_paper = orNull (row ''Paper''),
       qz_passage = orNull (row ''Passage''),
       qz_question = orNull (row ''Question''),
       qz_option_a = orNull (row ''Option A''),
       qz_option_b = orNull (row ''Option B''),
       qz_option_c = orNull (row ''Option C''),
       qz_option_d = orNull (row ''Option D''),
       qz_correct_option = orNull (row ''Correct Answer''),
       qz_explanation = orNull (row ''Explanation''),
       qz_subject = orNull (row ''Subject''),
       qz_topic = orNull (row ''Topic''),
       qz_year = orNull (row ''Year'') \<rparr>"

text \<open>The row mapping of \<open>handleFileUpload\<close>, second variant: every cell goes through the
  escape conversion.\<close>

definition quizRow2 :: "quiz_row \<Rightarrow> nat \<Rightarrow> QuizQuestion" where
  "quizRow2 row index =
     \<lparr> qz_id = index + 1,
       qz_paper = replacedOrNull (row ''Paper''),
       qz_passage = replacedOrNull (row ''Passage''),
       qz_question = replacedOrNull (row ''Question''),
       qz_option_a = replacedOrNull (row ''Option A''),
       qz_option_b = replacedOrNull (row ''Option B''),
       qz_option_c = replacedOrNull (row ''Option C''),
       qz_option_d = replacedOrNull (row ''Option D''),
       qz_correct_option = replacedOrNull (row ''Correct Answer''),
       qz_explanation = replacedOrNull (row ''Explanation''),
       qz_subject = replacedOrNull (row ''Subject''),
       qz_topic = replacedOrNull (row ''Topic''),
       qz_year = replacedOrNull (row ''Year'') \<rparr>"

text \<open>\<open>results.data.map((row, index) => ...)\<close>: the callback gets the 0-based position.\<close>

definition mapi :: "('a \<Rightarrow> nat \<Rightarrow> 'b) \<Rightarrow> 'a list \<Rightarrow> 'b list" where
  "mapi f xs = map (\<lambda>(x, i). f x i) (zip xs [0..<length xs])"

definition initialQuiz :: "QuizQuestion list \<Rightarrow> QuizState" where
  "initialQuiz qs =
     \<lparr> questions = qs, qz_currentIndex = 0, selectedAnswers = Map.empty,
       submitted = False, score = 0 \<rparr>"

text \<open>
  \<open>handleFileUpload\<close> from the \<open>complete\<close> callback on: the decoded rows replace the whole
  quiz state. (The \<open>catch\<close> branch needs a row that is not an object, which the decoder
  never delivers.)
\<close>

definition handleFileUpload1 :: "quiz_row list \<Rightarrow> QuizState" where
  "handleFileUpload1 rows = initialQuiz (mapi quizRow1 rows)"

definition handleFileUpload2 :: "quiz_row list \<Rightarrow> QuizState" where
  "handleFileUpload2 rows = initialQuiz (mapi quizRow2 rows)"

text \<open>
  \<open>handleAnswerSelect\<close>. The first variant writes at the current index, the second at the
  index of the question that was clicked. Nothing is stored once the quiz is submitted.
\<close>

definition handleAnswerSelect1 :: "string \<Rightarrow> QuizState \<Rightarrow> QuizState" where
  "handleAnswerSelect1 opt q =
     (if submitted q then q
      else q\<lparr>selectedAnswers := (selectedAnswers q)(qz_currentIndex q \<mapsto> opt)\<rparr>)"

definition handleAnswerSelect2 :: "nat \<Rightarrow> string \<Rightarrow> QuizState \<Rightarrow> QuizState" where
  "handleAnswerSelect2 questionIndex opt q =
     (if submitted q then q
      else q\<lparr>selectedAnswers := (selectedAnswers q)(questionIndex \<mapsto> opt)\<rparr>)"

text \<open>
  \<open>handleSubmit\<close> of the quiz, the same in both variants (\<open>quiz_handleSubmit\<close> here: the
  browse component has a \<open>handleSubmit\<close> of its own). \<open>x?.toUpperCase()\<close> is \<open>undefined\<close> when
  \<open>x\<close> is null or undefined, and \<open>===\<close> holds between two \<open>undefined\<close>: the comparison
  is the equality of two optional strings.
\<close>

definition optUpper :: "string option \<Rightarrow> string option" where
  "optUpper v = map_option toUpperCase v"

definition isScored :: "(nat \<rightharpoonup> string) \<Rightarrow> QuizQuestion \<Rightarrow> nat \<Rightarrow> bool" where
  "isScored answers question index =
     (optUpper (qz_correct_option question) = optUpper (answers index))"

definition countScore :: "QuizQuestion list \<Rightarrow> (nat \<rightharpoonup> string) \<Rightarrow> nat" where
  "countScore qs answers =
     foldl (\<lambda>score (question, index). if isScored answers question index then score + 1 else score)
       0 (zip qs [0..<length qs])"

definition quiz_handleSubmit :: "QuizState \<Rightarrow> QuizState" where
  "quiz_handleSubmit q = q\<lparr>submitted := True, score := countScore (questions q) (selectedAnswers q)\<rparr>"


section \<open>The browse component: data\<close>

text \<open>
  A decoded row of the browse component maps the transformed header names to cells. A cell
  is null or text. With \<open>dynamicTyping\<close> a numeric cell arrives as a number; the code reads
  numbers only in the \<open>year\<close> column and turns them into text at once with \<open>String\<close>, so a
  number is represented by the text \<open>String\<close> gives it. The other columns hold what the
  \<open>Question\<close> interface declares, a string or null.
\<close>

datatype cell = Null | Text string

type_synonym row = "string \<rightharpoonup> cell"

text \<open>
  The \<open>Question\<close> interface. Its \<open>id\<close> is called \<open>qid\<close> here (\<open>id\<close> is the identity
  function of HOL); \<open>image_url\<close> is \<open>imageUrl\<close> in the older variant of the component.
\<close>

record Question =
  qid :: nat
  paper :: "string option"
  subject :: "string option"
  topic :: "string option"
  year :: "string option"
  passage :: "string option"
  question :: "string option"
  option_a :: "string option"
  option_b :: "string option"
  option_c :: "string option"
  option_d :: "string option"
  correct_option :: "string option"
  explanation :: "string option"
  image_url :: "string option"

text \<open>
  The \<open>Filters\<close> interface; the fields carry the prefix \<open>flt_\<close> to keep them apart from the
  fields of \<open>Question\<close>. The older variant of the component has no \<open>id\<close> filter: it behaves
  as this one does with \<open>flt_id\<close> empty.
\<close>

record Filters =
  flt_paper :: string
  flt_subject :: string
  flt_topic :: string
  flt_year :: string
  flt_id :: string

subsection \<open>Arrays in a store\<close>

text \<open>
  JavaScript arrays are mutable objects handled by reference, and \<open>shuffleArray\<close> swaps
  elements in place. Arrays therefore live in a store, addressed by numbers; a state
  variable that holds an array holds its address. \<open>fresh\<close> is the next unused address.
  The elements are the question objects; no statement of the component assigns to a field
  of a question, so an array is the list of the values of its elements.
\<close>

type_synonym addr = nat

record 'a store =
  arrays :: "addr \<Rightarrow> 'a list option"
  fresh :: addr

definition deref :: "'a store \<Rightarrow> addr \<Rightarrow> 'a list" where
  "deref st a = (case arrays st a of Some xs \<Rightarrow> xs | None \<Rightarrow> [])"

text \<open>A new array object with the given elements.\<close>

definition allocArray :: "'a store \<Rightarrow> 'a list \<Rightarrow> addr \<times> 'a store" where
  "allocArray st xs = (fresh st, st\<lparr>arrays := (arrays st)(fresh st \<mapsto> xs), fresh := Suc (fresh st)\<rparr>)"

text \<open>\<open>[...array]\<close>: a new array with the same elements.\<close>

definition spread :: "'a store \<Rightarrow> addr \<Rightarrow> addr \<times> 'a store" where
  "spread st array = allocArray st (deref st array)"

text \<open>\<open>array.filter(p)\<close>: a new array; the receiver is not changed.\<close>

definition filterArray :: "'a store \<Rightarrow> addr \<Rightarrow> ('a \<Rightarrow> bool) \<Rightarrow> addr \<times> 'a store" where
  "filterArray st array p = allocArray st (filter p (deref st array))"

text \<open>
  \<open>[a[i], a[j]] = [a[j], a[i]]\<close>: both elements are read, then \<open>a[i]\<close> and \<open>a[j]\<close> are
  written, in the array object itself.
\<close>

definition swapInPlace :: "'a store \<Rightarrow> addr \<Rightarrow> nat \<Rightarrow> nat \<Rightarrow> 'a store" where
  "swapInPlace st a i j =
     (case arrays st a of
        None \<Rightarrow> st
      | Some xs \<Rightarrow> st\<lparr>arrays := (arrays st)(a \<mapsto> xs[i := xs ! j, j := xs ! i])\<rparr>)"

text \<open>
  \<open>shuffleArray\<close>. \<open>random k\<close> is the value of the \<open>k\<close>-th call of \<open>Math.random()\<close>, a number
  in \<open>[0, 1)\<close>, so that \<open>randomIndex\<close> is below \<open>currentIndex\<close>. The loop runs while
  \<open>currentIndex\<close> is not 0: it draws \<open>randomIndex\<close>, decrements \<open>currentIndex\<close> and swaps.
\<close>

fun shuffleLoop :: "(nat \<Rightarrow> real) \<Rightarrow> nat \<Rightarrow> addr \<Rightarrow> nat \<Rightarrow> 'a store \<Rightarrow> 'a store" where
  "shuffleLoop random calls newArray 0 st = st"
| "shuffleLoop random calls newArray (Suc n) st =
     (let randomIndex = nat \<lfloor>random calls * real (Suc n)\<rfloor>;
          currentIndex = n
      in shuffleLoop random (Suc calls) newArray currentIndex
           (swapInPlace st newArray currentIndex randomIndex))"

definition shuffleArray :: "(nat \<Rightarrow> real) \<Rightarrow> 'a store \<Rightarrow> addr \<Rightarrow> addr \<times> 'a store" where
  "shuffleArray random st array =
     (let currentIndex = length (deref st array);
          (newArray, st1) = spread st array
      in (newArray, shuffleLoop random 0 newArray currentIndex st1))"

subsection \<open>Component state\<close>

text \<open>
  The state variables of the component (the two flags that fold the filter panel and the
  footer are left out). \<open>allQuestions\<close> and \<open>displayedQuestions\<close> hold array addresses.
\<close>

record PyqsState =
  allQuestions :: addr
  isLoadingCsv :: bool
  csvError :: "string option"
  filters :: Filters
  availablePapers :: "string list"
  availableSubjects :: "string list"
  availableTopics :: "string list"
  availableYears :: "string list"
  searchTerm :: string
  debouncedSearchTerm :: string
  isRandom :: bool
  displayedQuestions :: addr
  currentIndex :: nat
  selectedOption :: "string option"
  submittedIndices :: "nat set"
  jumpToInput :: string


section \<open>The browse component: loading\<close>

text \<open>What the decoder hands to \<open>complete\<close>: the rows and the parse errors.\<close>

record parse_error =
  err_row :: "nat option"
  err_message :: string

record results =
  data :: "row list"
  errors :: "parse_error list"

definition requiredTransformedKeys :: "string list" where
  "requiredTransformedKeys =
     [''question'', ''option_a'', ''option_b'', ''option_c'', ''option_d'', ''correct_option'']"

text \<open>
  The test of the validation gate on one key:
  \<open>!(key in firstRow) || firstRow[key] === null || firstRow[key] === undefined || firstRow[key] === ''\<close>.
\<close>

definition isMissing :: "row \<Rightarrow> string \<Rightarrow> bool" where
  "isMissing firstRow key =
     (case firstRow key of None \<Rightarrow> True | Some Null \<Rightarrow> True | Some (Text s) \<Rightarrow> s = [])"

definition missingKeys :: "row \<Rightarrow> string list" where
  "missingKeys firstRow = filter (isMissing firstRow) requiredTransformedKeys"

definition missingMessage :: "string list \<Rightarrow> string" where
  "missingMessage keys =
     ''CSV data is missing essential content after processing: '' @ join '', '' keys
       @ ''. Check CSV file and header mapping.''"

text \<open>\<open>row.x ?? null\<close>, and \<open>row.year != null ? String(row.year) : null\<close>, which is the same
  on cells as they are represented here.\<close>

definition nullish :: "cell option \<Rightarrow> string option" where
  "nullish v = (case v of None \<Rightarrow> None | Some Null \<Rightarrow> None | Some (Text s) \<Rightarrow> Some s)"

definition processRow :: "row \<Rightarrow> nat \<Rightarrow> Question" where
  "processRow row index =
     \<lparr> qid = index + 1,
       paper = nullish (row ''paper''),
       subject = nullish (row ''subject''),
       topic = nullish (row ''topic''),
       year = nullish (row ''year''),
       passage = nullish (row ''passage''),
       question = nullish (row ''question''),
       option_a = nullish (row ''option_a''),
       option_b = nullish (row ''option_b''),
       option_c = nullish (row ''option_c''),
       option_d = nullish (row ''option_d''),
       correct_option = nullish (row ''correct_option''),
       explanation = nullish (row ''explanation''),
       image_url = nullish (row ''image_url'') \<rparr>"

definition processedData :: "row list \<Rightarrow> Question list" where
  "processedData rows = mapi processRow rows"

definition errorLine :: "parse_error \<Rightarrow> string" where
  "errorLine err =
     ''Row '' @ (case err_row err of None \<Rightarrow> ''undefined'' | Some n \<Rightarrow> showNat n) @ '': ''
       @ err_message err"

definition parseErrorMessage :: "parse_error list \<Rightarrow> string" where
  "parseErrorMessage errs =
     ''Error parsing CSV: '' @ join ''; '' (map errorLine (take 3 errs)) @ ''... Check console.''"

text \<open>
  The \<open>complete\<close> callback: parse errors reject the load; so does an empty result; so does a
  first row that lacks an essential key. Otherwise the rows become the collection.
\<close>

definition complete :: "Question store \<Rightarrow> PyqsState \<Rightarrow> results \<Rightarrow> Question store \<times> PyqsState" where
  "complete st s r =
     (if errors r \<noteq> [] then
        (st, s\<lparr>csvError := Some (parseErrorMessage (errors r)), isLoadingCsv := False\<rparr>)
      else
        (case data r of
           [] \<Rightarrow>
             (st, s\<lparr>csvError := Some ''CSV file is empty or has no data rows.'',
                    isLoadingCsv := False\<rparr>)
         | firstRow # _ \<Rightarrow>
             if missingKeys firstRow \<noteq> [] then
               (st, s\<lparr>csvError := Some (missingMessage (missingKeys firstRow)),
                      isLoadingCsv := False\<rparr>)
             else
               (let (a, st') = allocArray st (processedData (data r))
                in (st', s\<lparr>allQuestions := a, isLoadingCsv := False\<rparr>))))"

text \<open>The first three statements of \<open>fetchAndParseCsv\<close>: the collection is reset to a new
  empty array.\<close>

definition loadStart :: "Question store \<Rightarrow> PyqsState \<Rightarrow> Question store \<times> PyqsState" where
  "loadStart st s =
     (let (a, st') = allocArray st []
      in (st', s\<lparr>isLoadingCsv := True, csvError := None, allQuestions := a\<rparr>))"

text \<open>The \<open>catch\<close> block.\<close>

definition loadFailed :: "Question store \<Rightarrow> PyqsState \<Rightarrow> string \<Rightarrow> Question store \<times> PyqsState" where
  "loadFailed st s msg =
     (let (a, st') = allocArray st []
      in (st', s\<lparr>csvError := Some (''Failed to load or process question data. '' @ msg),
                 allQuestions := a, isLoadingCsv := False\<rparr>))"

text \<open>The outcome of \<open>fetch\<close> and of \<open>Papa.parse\<close>, both outside the component.\<close>

datatype fetched = FetchThrows string | Response bool nat string

datatype papa = Complete results | ParseError string | ParseThrows string

definition fetchAndParseCsv ::
  "Question store \<Rightarrow> PyqsState \<Rightarrow> fetched \<Rightarrow> (string \<Rightarrow> papa) \<Rightarrow> Question store \<times> PyqsState" where
  "fetchAndParseCsv st s response papaParse =
     (let (st0, s0) = loadStart st s in
      case response of
        FetchThrows msg \<Rightarrow> loadFailed st0 s0 msg
      | Response ok status csvText \<Rightarrow>
          if \<not> ok then
            loadFailed st0 s0
              (''HTTP error! status: '' @ showNat status @ '' - Could not fetch CSV.'')
          else if csvText = [] \<or> length (trim csvText) = 0 then
            loadFailed st0 s0 ''CSV file is empty''
          else
            (case papaParse csvText of
               Complete r \<Rightarrow> complete st0 s0 r
             | ParseError msg \<Rightarrow>
                 (st0, s0\<lparr>csvError := Some (''Failed to parse CSV. '' @ msg),
                          isLoadingCsv := False\<rparr>)
             | ParseThrows msg \<Rightarrow> loadFailed st0 s0 msg))"


section \<open>The browse component: facets\<close>

text \<open>\<open>.filter(s => !!s)\<close> on a list of \<open>string | null\<close>: the non-empty strings.\<close>

fun keepTruthy :: "string option list \<Rightarrow> string list" where
  "keepTruthy [] = []"
| "keepTruthy (None # vs) = keepTruthy vs"
| "keepTruthy (Some s # vs) = (if s \<noteq> [] then s # keepTruthy vs else keepTruthy vs)"

text \<open>\<open>Array.from(new Set(xs))\<close>: each value once, in the order of first occurrence.\<close>

definition uniq :: "'a list \<Rightarrow> 'a list" where
  "uniq xs = rev (remdups (rev xs))"

text \<open>
  The effect that derives the subject options. \<open>.sort()\<close> orders strings by code unit,
  which is the lexicographic order of \<^typ>\<open>string\<close>.
\<close>

definition subjectsToShow :: "Question list \<Rightarrow> string \<Rightarrow> string list" where
  "subjectsToShow qs selectedPaper =
     (if selectedPaper = [] then sort (uniq (keepTruthy (map subject qs)))
      else sort (uniq (keepTruthy (map subject (filter (\<lambda>q. paper q = Some selectedPaper) qs)))))"

definition deriveSubjects :: "Question store \<Rightarrow> PyqsState \<Rightarrow> PyqsState" where
  "deriveSubjects st s =
     (if isLoadingCsv s \<or> truthy (csvError s) \<or> length (deref st (allQuestions s)) = 0 then
        s\<lparr>availableSubjects := []\<rparr>
      else
        s\<lparr>availableSubjects := subjectsToShow (deref st (allQuestions s)) (flt_paper (filters s))\<rparr>)"


section \<open>The browse component: the displayed set\<close>

text \<open>\<open>String(v || '')\<close> for a \<open>string | null\<close> field.\<close>

definition orEmpty :: "string option \<Rightarrow> string" where
  "orEmpty v = (case v of None \<Rightarrow> [] | Some s \<Rightarrow> s)"

definition matchesSearch :: "string \<Rightarrow> Question \<Rightarrow> bool" where
  "matchesSearch lowerSearchTerm q =
     (str_includes (toLowerCase (orEmpty (question q))) lowerSearchTerm
      \<or> str_includes (toLowerCase (orEmpty (passage q))) lowerSearchTerm
      \<or> str_includes (toLowerCase (orEmpty (option_a q))) lowerSearchTerm
      \<or> str_includes (toLowerCase (orEmpty (option_b q))) lowerSearchTerm
      \<or> str_includes (toLowerCase (orEmpty (option_c q))) lowerSearchTerm
      \<or> str_includes (toLowerCase (orEmpty (option_d q))) lowerSearchTerm
      \<or> str_includes (toLowerCase (orEmpty (explanation q))) lowerSearchTerm)"

text \<open>
  \<open>if (cond) { filtered = filtered.filter(p) }\<close>: the variable \<open>filtered\<close> is rebound to a
  new array, or left alone.
\<close>

definition filterIf ::
  "bool \<Rightarrow> ('a \<Rightarrow> bool) \<Rightarrow> addr \<times> 'a store \<Rightarrow> addr \<times> 'a store" where
  "filterIf cond p fs = (if cond then filterArray (snd fs) (fst fs) p else fs)"

text \<open>The \<open>id\<close> filter: applied when the text is not empty and \<open>parseInt\<close> gives a number.\<close>

definition idFilter :: "string \<Rightarrow> addr \<times> Question store \<Rightarrow> addr \<times> Question store" where
  "idFilter idText fs =
     (if idText \<noteq> [] then
        (case parseInt idText of
           None \<Rightarrow> fs
         | Some searchId \<Rightarrow> filterArray (snd fs) (fst fs) (\<lambda>q. int (qid q) = searchId))
      else fs)"

definition shuffleIf ::
  "bool \<Rightarrow> (nat \<Rightarrow> real) \<Rightarrow> addr \<times> 'a store \<Rightarrow> addr \<times> 'a store" where
  "shuffleIf cond random fs = (if cond then shuffleArray random (snd fs) (fst fs) else fs)"

definition resetNavigation :: "PyqsState \<Rightarrow> PyqsState" where
  "resetNavigation s =
     s\<lparr>currentIndex := 0, selectedOption := None, submittedIndices := {}, jumpToInput := []\<rparr>"

text \<open>
  \<open>updateDisplayedQuestions\<close>. \<open>filtered\<close> starts as a copy of the collection and goes
  through the facet filters, the id filter, the search and the shuffle, in this order.
\<close>

definition updateDisplayedQuestions ::
  "(nat \<Rightarrow> real) \<Rightarrow> Question store \<Rightarrow> PyqsState \<Rightarrow> Question store \<times> PyqsState" where
  "updateDisplayedQuestions random st s =
     (if isLoadingCsv s \<or> truthy (csvError s) \<or> length (deref st (allQuestions s)) = 0 then
        (let (a, st') = allocArray st []
         in (st', resetNavigation (s\<lparr>displayedQuestions := a\<rparr>)))
      else
        (let f = filters s;
             filtered0 = spread st (allQuestions s);
             filtered1 = filterIf (flt_paper f \<noteq> []) (\<lambda>q. paper q = Some (flt_paper f)) filtered0;
             filtered2 = filterIf (flt_subject f \<noteq> []) (\<lambda>q. subject q = Some (flt_subject f)) filtered1;
             filtered3 = filterIf (flt_topic f \<noteq> []) (\<lambda>q. topic q = Some (flt_topic f)) filtered2;
             filtered4 = filterIf (flt_year f \<noteq> []) (\<lambda>q. year q = Some (flt_year f)) filtered3;
             filtered5 = idFilter (flt_id f) filtered4;
             filtered6 = filterIf (debouncedSearchTerm s \<noteq> [])
                           (matchesSearch (toLowerCase (debouncedSearchTerm s))) filtered5;
             filtered7 = shuffleIf (isRandom s) random filtered6
         in (snd filtered7, resetNavigation (s\<lparr>displayedQuestions := fst filtered7\<rparr>))))"


section \<open>The browse component: event handlers\<close>

text \<open>
  \<open>handleFilterChange\<close>: \<open>{ ...prevFilters, [name]: value }\<close>, then the cascade. The names
  the form sends are those of the five filter fields; any other name would add a property
  that nothing reads.
\<close>

definition setFilter :: "string \<Rightarrow> string \<Rightarrow> Filters \<Rightarrow> Filters" where
  "setFilter name v f =
     (if name = ''paper'' then f\<lparr>flt_paper := v\<rparr>
      else if name = ''subject'' then f\<lparr>flt_subject := v\<rparr>
      else if name = ''topic'' then f\<lparr>flt_topic := v\<rparr>
      else if name = ''year'' then f\<lparr>flt_year := v\<rparr>
      else if name = ''id'' then f\<lparr>flt_id := v\<rparr>
      else f)"

definition newFilters :: "string \<Rightarrow> string \<Rightarrow> Filters \<Rightarrow> Filters" where
  "newFilters name v prevFilters =
     (if name = ''paper'' then (setFilter name v prevFilters)\<lparr>flt_subject := [], flt_topic := []\<rparr>
      else if name = ''subject'' then (setFilter name v prevFilters)\<lparr>flt_topic := []\<rparr>
      else setFilter name v prevFilters)"

definition handleFilterChange :: "string \<Rightarrow> string \<Rightarrow> PyqsState \<Rightarrow> PyqsState" where
  "handleFilterChange name v s = s\<lparr>filters := newFilters name v (filters s)\<rparr>"

definition handleOptionSelect :: "string \<Rightarrow> PyqsState \<Rightarrow> PyqsState" where
  "handleOptionSelect opt s =
     (if currentIndex s \<notin> submittedIndices s then s\<lparr>selectedOption := Some opt\<rparr> else s)"

definition handleSubmit :: "PyqsState \<Rightarrow> PyqsState" where
  "handleSubmit s =
     (if selectedOption s \<noteq> None \<and> currentIndex s \<notin> submittedIndices s
      then s\<lparr>submittedIndices := insert (currentIndex s) (submittedIndices s)\<rparr> else s)"

definition handlePrevious :: "PyqsState \<Rightarrow> PyqsState" where
  "handlePrevious s =
     (if currentIndex s > 0 then s\<lparr>currentIndex := currentIndex s - 1, selectedOption := None\<rparr>
      else s)"

text \<open>\<open>currentIndex < displayedQuestions.length - 1\<close>; on an empty array the right side is
  \<open>-1\<close> and the test fails, as it does here with the subtraction of natural numbers.\<close>

definition handleNext :: "Question store \<Rightarrow> PyqsState \<Rightarrow> PyqsState" where
  "handleNext st s =
     (if currentIndex s < length (deref st (displayedQuestions s)) - 1
      then s\<lparr>currentIndex := currentIndex s + 1, selectedOption := None\<rparr> else s)"

text \<open>
  \<open>handleJumpTo\<close>. The result carries the text of the alert, if one is raised.
  \<open>parseInt(...) - 1\<close> is NaN when \<open>parseInt\<close> gives NaN.
\<close>

definition invalidJump :: "Question store \<Rightarrow> PyqsState \<Rightarrow> string option \<times> PyqsState" where
  "invalidJump st s =
     (Some (''Invalid question number. Please enter a number between 1 and ''
              @ showNat (length (deref st (displayedQuestions s))) @ ''.''),
      s\<lparr>jumpToInput := []\<rparr>)"

definition handleJumpTo :: "Question store \<Rightarrow> PyqsState \<Rightarrow> string option \<times> PyqsState" where
  "handleJumpTo st s =
     (case map_option (\<lambda>n. n - 1) (parseInt (jumpToInput s)) of
        None \<Rightarrow> invalidJump st s
      | Some targetIndex \<Rightarrow>
          if targetIndex \<ge> 0 \<and> targetIndex < int (length (deref st (displayedQuestions s)))
          then (None, s\<lparr>currentIndex := nat targetIndex, selectedOption := None\<rparr>)
          else invalidJump st s)"

text \<open>\<open>formatText\<close> of the newer variant, applied when a question is rendered.\<close>

definition formatText :: "string option \<Rightarrow> string" where
  "formatText text = (if \<not> truthy text then [] else replace_backslash_n (orEmpty text))"


section \<open>Notions used in the proofs\<close>

text \<open>
  \<open>frame st st'\<close>: the store \<open>st'\<close> still holds every array of \<open>st\<close>, unchanged. Addresses
  are handed out in increasing order, so the arrays of \<open>st\<close> are those below \<open>fresh st\<close>.
\<close>

definition frame :: "'a store \<Rightarrow> 'a store \<Rightarrow> bool" where
  "frame st st' \<longleftrightarrow> fresh st \<le> fresh st' \<and> (\<forall>a. a < fresh st \<longrightarrow> arrays st' a = arrays st a)"

text \<open>
  The view filter as the specification words it: every non-empty facet is an exact-match
  test, an id filter that reads as a number selects the question with that id, and a
  search term must occur in one of the text fields; all tests are conjoined.
\<close>

definition viewFilterSpec :: "Filters \<Rightarrow> string \<Rightarrow> Question \<Rightarrow> bool" where
  "viewFilterSpec f searchText q \<longleftrightarrow>
     (flt_paper f = [] \<or> paper q = Some (flt_paper f))
     \<and> (flt_subject f = [] \<or> subject q = Some (flt_subject f))
     \<and> (flt_topic f = [] \<or> topic q = Some (flt_topic f))
     \<and> (flt_year f = [] \<or> year q = Some (flt_year f))
     \<and> (case parseInt (flt_id f) of None \<Rightarrow> True | Some n \<Rightarrow> flt_id f = [] \<or> int (qid q) = n)
     \<and> (searchText = [] \<or> matchesSearch (toLowerCase searchText) q)"

text \<open>The invariant of the pipeline of \<open>updateDisplayedQuestions\<close>, started in store \<open>st\<close>:
  the arrays of \<open>st\<close> are untouched and \<open>filtered\<close> is an array made since.\<close>

definition pipelineOk :: "'a store \<Rightarrow> addr \<times> 'a store \<Rightarrow> bool" where
  "pipelineOk st fs \<longleftrightarrow> frame st (snd fs) \<and> fresh st \<le> fst fs \<and> fst fs < fresh (snd fs)"

text \<open>What the array \<open>filtered\<close> holds.\<close>

definition held :: "addr \<times> 'a store \<Rightarrow> 'a list" where
  "held fs = deref (snd fs) (fst fs)"

text \<open>The pipeline up to the shuffle, and the guard at the head of the function.\<close>

definition filteredPipeline :: "Question store \<Rightarrow> PyqsState \<Rightarrow> addr \<times> Question store" where
  "filteredPipeline st s =
     filterIf (debouncedSearchTerm s \<noteq> []) (matchesSearch (toLowerCase (debouncedSearchTerm s)))
       (idFilter (flt_id (filters s))
         (filterIf (flt_year (filters s) \<noteq> []) (\<lambda>q. year q = Some (flt_year (filters s)))
           (filterIf (flt_topic (filters s) \<noteq> []) (\<lambda>q. topic q = Some (flt_topic (filters s)))
             (filterIf (flt_subject (filters s) \<noteq> []) (\<lambda>q. subject q = Some (flt_subject (filters s)))
               (filterIf (flt_paper (filters s) \<noteq> []) (\<lambda>q. paper q = Some (flt_paper (filters s)))
                 (spread st (allQuestions s)))))))"

definition guarded :: "Question store \<Rightarrow> PyqsState \<Rightarrow> bool" where
  "guarded st s \<longleftrightarrow> isLoadingCsv s \<or> truthy (csvError s) \<or> length (deref st (allQuestions s)) = 0"


section \<open>Sample data\<close>

text \<open>Three questions, a store that holds the collection at address 0 and a displayed
  copy at address 1, and a component state over them.\<close>

definition q1 :: Question where
  "q1 = \<lparr> qid = 1, paper = Some ''GS1'', subject = Some ''History'', topic = Some ''Modern'',
      year = Some ''2020'', passage = None, question = Some ''First question'',
      option_a = Some ''a1'', option_b = Some ''b1'', option_c = Some ''c1'', option_d = Some ''d1'',
      correct_option = Some ''A'', explanation = None, image_url = None \<rparr>"

definition q2 :: Question where
  "q2 = \<lparr> qid = 2, paper = Some ''GS1'', subject = Some ''Polity'', topic = None,
      year = Some ''2021'', passage = None, question = Some ''Second question'',
      option_a = Some ''a2'', option_b = Some ''b2'', option_c = Some ''c2'', option_d = Some ''d2'',
      correct_option = Some ''b'', explanation = Some ''because'', image_url = None \<rparr>"

definition q3 :: Question where
  "q3 = \<lparr> qid = 3, paper = Some ''GS2'', subject = Some ''Ethics'', topic = None,
      year = Some ''2021'', passage = None, question = Some ''Third question'',
      option_a = Some ''a3'', option_b = Some ''b3'', option_c = Some ''c3'', option_d = Some ''d3'',
      correct_option = Some ''C'', explanation = None, image_url = None \<rparr>"

definition demoStore :: "Question store" where
  "demoStore = \<lparr> arrays = [0 \<mapsto> [q1, q2, q3], 1 \<mapsto> [q1, q2, q3]], fresh = 2 \<rparr>"

definition noFilters :: Filters where
  "noFilters = \<lparr> flt_paper = [], flt_subject = [], flt_topic = [], flt_year = [], flt_id = [] \<rparr>"

definition demoState :: PyqsState where
  "demoState =
     \<lparr> allQuestions = 0, isLoadingCsv = False, csvError = None, filters = noFilters,
       availablePapers = [], availableSubjects = [], availableTopics = [], availableYears = [],
       searchTerm = [], debouncedSearchTerm = [], isRandom = False, displayedQuestions = 1,
       currentIndex = 0, selectedOption = None, submittedIndices = {}, jumpToInput = [] \<rparr>"


text \<open>Decoded rows: a complete one, one that has a single column, and one whose
  \<open>option_c\<close> is absent, \<open>option_d\<close> null and \<open>correct_option\<close> empty; a parse error
  as the decoder reports it for a short row; decoder results built from them.\<close>

definition goodRow :: row where
  "goodRow = [''paper'' \<mapsto> Text ''GS1'', ''year'' \<mapsto> Text ''2020'', ''passage'' \<mapsto> Null,
      ''question'' \<mapsto> Text ''Which one?'', ''option_a'' \<mapsto> Text ''a'', ''option_b'' \<mapsto> Text ''b'',
      ''option_c'' \<mapsto> Text ''c'', ''option_d'' \<mapsto> Text ''d'', ''correct_option'' \<mapsto> Text ''B'']"

definition shortRow :: row where
  "shortRow = [''paper'' \<mapsto> Text ''GS2'']"

definition badRow :: row where
  "badRow = [''paper'' \<mapsto> Text ''GS1'', ''question'' \<mapsto> Text ''Which one?'',
      ''option_a'' \<mapsto> Text ''a'', ''option_b'' \<mapsto> Text ''b'', ''option_d'' \<mapsto> Null,
      ''correct_option'' \<mapsto> Text []]"

definition tooFewFields :: parse_error where
  "tooFewFields = \<lparr> err_row = Some 1, err_message = ''Too few fields'' \<rparr>"

definition withWarning :: results where
  "withWarning = \<lparr> data = [goodRow, shortRow], errors = [tooFewFields] \<rparr>"

text \<open>The state after loading two rows without parse errors.\<close>

definition loaded :: "Question store \<times> PyqsState" where
  "loaded = complete (fst (loadStart demoStore demoState)) (snd (loadStart demoStore demoState))
              \<lparr> data = [goodRow, shortRow], errors = [] \<rparr>"

text \<open>Component states with a paper filter and the random order, and with a year filter.\<close>

definition shuffledState :: PyqsState where
  "shuffledState = demoState\<lparr>filters := noFilters\<lparr>flt_paper := ''GS1''\<rparr>, isRandom := True\<rparr>"

definition yearState :: PyqsState where
  "yearState = demoState\<lparr>filters := noFilters\<lparr>flt_year := ''2021''\<rparr>\<rparr>"

text \<open>Two decoded rows of a quiz file; the second has an empty \<open>Correct Answer\<close> cell.\<close>

definition quizRowA :: quiz_row where
  "quizRowA = [''Question'' \<mapsto> ''First'', ''Option A'' \<mapsto> ''x'', ''Correct Answer'' \<mapsto> ''A'']"

definition quizRowB :: quiz_row where
  "quizRowB = [''Question'' \<mapsto> ''Second'', ''Option A'' \<mapsto> ''y'', ''Correct Answer'' \<mapsto> '''']"

text \<open>A question without an answer key, as a row with an empty \<open>Correct Answer\<close> cell gives.\<close>

definition keyless :: QuizQuestion where
  "keyless =
     \<lparr> qz_id = 1, qz_paper = None, qz_passage = None, qz_question = Some ''Q'',
       qz_option_a = Some ''x'', qz_option_b = Some ''y'', qz_option_c = None,
       qz_option_d = None, qz_correct_option = None, qz_explanation = None,
       qz_subject = None, qz_topic = None, qz_year = None \<rparr>"


section \<open>Scoring\<close>

lemma foldl_count_filter:
  "foldl (\<lambda>n x. if P x then n + 1 else n) k xs = k + length (filter P xs)"
  by (induction xs arbitrary: k) auto

lemma countScore_eq:
  "countScore qs answers =
     length (filter (\<lambda>(question, index). isScored answers question index) (zip qs [0..<length qs]))"
  unfolding countScore_def by (simp add: case_prod_unfold foldl_count_filter)

text \<open>
  What \<open>handleSubmit\<close> of the quiz computes: the number of positions at which the answer
  key and the stored answer, both upper-cased, are equal as optional values. An answered
  position counts exactly when the question has a key that matches; an unanswered position
  counts exactly when the question has no key.
\<close>

lemma zip_with_indices: "zip xs [0..<length xs] = map (\<lambda>i. (xs ! i, i)) [0..<length xs]"
  by (rule nth_equalityI) simp_all

lemma score_as_count:
  "score (quiz_handleSubmit q) =
     length (filter (\<lambda>i. optUpper (qz_correct_option (questions q ! i)) = optUpper (selectedAnswers q i))
               [0..<length (questions q)])"
proof -
  have "score (quiz_handleSubmit q) = countScore (questions q) (selectedAnswers q)"
    by (simp add: quiz_handleSubmit_def)
  also have "\<dots> = length (filter (\<lambda>(question, index). isScored (selectedAnswers q) question index)
                      (map (\<lambda>i. (questions q ! i, i)) [0..<length (questions q)]))"
    by (simp only: countScore_eq zip_with_indices)
  also have "\<dots> = length (filter (\<lambda>i. isScored (selectedAnswers q) (questions q ! i) i)
                      [0..<length (questions q)])"
    by (simp add: filter_map comp_def)
  finally show ?thesis by (simp add: isScored_def)
qed

lemma answered_scores_iff:
  assumes "i < length (questions q)" "selectedAnswers q i = Some a"
  shows "isScored (selectedAnswers q) (questions q ! i) i
         \<longleftrightarrow> (\<exists>k. qz_correct_option (questions q ! i) = Some k \<and> toUpperCase k = toUpperCase a)"
  using assms by (cases "qz_correct_option (questions q ! i)") (auto simp: isScored_def optUpper_def)

lemma unanswered_scores_iff:
  assumes "selectedAnswers q i = None"
  shows "isScored (selectedAnswers q) (questions q ! i) i \<longleftrightarrow> qz_correct_option (questions q ! i) = None"
  using assms by (simp add: isScored_def optUpper_def)

text \<open>
  C1. The submit-all score should count a position only when its stored letter equals the
  question's answer key, never an unanswered position and never a question without a key.
  On a one-question quiz whose question has no answer key and which nobody answered,
  \<open>quiz_handleSubmit\<close> awards one point: both sides of the comparison are \<open>undefined\<close>.
\<close>

theorem C1_unanswered_keyless_scores:
  "score (quiz_handleSubmit (initialQuiz [keyless])) = 1
   \<and> selectedAnswers (initialQuiz [keyless]) 0 = None
   \<and> qz_correct_option (questions (initialQuiz [keyless]) ! 0) = None"
  by (simp add: quiz_handleSubmit_def initialQuiz_def keyless_def countScore_def isScored_def
      optUpper_def)

section \<open>Filter cascade\<close>

text \<open>
  C5. Setting the paper facet (to any value, the empty one included) leaves subject and
  topic empty, and setting the subject facet leaves topic empty; after any history of
  filter changes that ends with a paper change, subject and topic are empty, and after any
  history that ends with a subject change, topic is empty.
\<close>

theorem C5_filter_cascade:
  "flt_paper (newFilters ''paper'' v f) = v
   \<and> flt_subject (newFilters ''paper'' v f) = []
   \<and> flt_topic (newFilters ''paper'' v f) = []
   \<and> flt_subject (newFilters ''subject'' v f) = v
   \<and> flt_topic (newFilters ''subject'' v f) = []
   \<and> flt_paper (newFilters ''subject'' v f) = flt_paper f
   \<and> flt_subject (filters (foldl (\<lambda>s (name, v). handleFilterChange name v s) s0
                               (events @ [(''paper'', v)]))) = []
   \<and> flt_topic (filters (foldl (\<lambda>s (name, v). handleFilterChange name v s) s0
                               (events @ [(''paper'', v)]))) = []
   \<and> flt_topic (filters (foldl (\<lambda>s (name, v). handleFilterChange name v s) s0
                               (events @ [(''subject'', v)]))) = []"
  by (simp add: newFilters_def setFilter_def handleFilterChange_def)

section \<open>Jumping to a question\<close>

lemma handleJumpTo_valid:
  assumes "parseInt (jumpToInput s) = Some n" "1 \<le> n" "n \<le> int (length (deref st (displayedQuestions s)))"
  shows "handleJumpTo st s = (None, s\<lparr>currentIndex := nat (n - 1), selectedOption := None\<rparr>)"
  using assms by (simp add: handleJumpTo_def)

lemma handleJumpTo_invalid:
  assumes "\<nexists>n. parseInt (jumpToInput s) = Some n \<and> 1 \<le> n \<and> n \<le> int (length (deref st (displayedQuestions s)))"
  shows "handleJumpTo st s = invalidJump st s"
proof (cases "parseInt (jumpToInput s)")
  case None
  then show ?thesis by (simp add: handleJumpTo_def)
next
  case (Some n)
  with assms have "\<not> (1 \<le> n \<and> n \<le> int (length (deref st (displayedQuestions s))))" by blast
  with Some show ?thesis by (auto simp: handleJumpTo_def)
qed

lemmas parse_simps =
  parseInt_def parseDigits_def isWhiteSpace_def isDigit_def decimal_def digitVal_def

lemma demo_displayed: "deref demoStore (Suc 0) = [q1, q2, q3]"
  by (simp add: demoStore_def deref_def)

text \<open>
  C6. With \<open>n\<close> the number read from the jump field: if \<open>1 \<le> n \<le> len(displayed)\<close> the jump
  succeeds and sets \<open>currentIndex\<close> to \<open>n - 1\<close>; otherwise (no number, or a number out of
  range) an alert is raised and \<open>currentIndex\<close>, the selection and the submitted positions
  are unchanged.
\<close>

theorem C6_jumpTo:
  "(\<forall>n. parseInt (jumpToInput s) = Some n \<and> 1 \<le> n \<and> n \<le> int (length (deref st (displayedQuestions s)))
        \<longrightarrow> handleJumpTo st s = (None, s\<lparr>currentIndex := nat (n - 1), selectedOption := None\<rparr>))
   \<and> ((\<nexists>n. parseInt (jumpToInput s) = Some n \<and> 1 \<le> n \<and> n \<le> int (length (deref st (displayedQuestions s))))
        \<longrightarrow> fst (handleJumpTo st s) \<noteq> None
            \<and> currentIndex (snd (handleJumpTo st s)) = currentIndex s
            \<and> selectedOption (snd (handleJumpTo st s)) = selectedOption s
            \<and> submittedIndices (snd (handleJumpTo st s)) = submittedIndices s
            \<and> displayedQuestions (snd (handleJumpTo st s)) = displayedQuestions s)"
  by (auto simp: handleJumpTo_valid handleJumpTo_invalid invalidJump_def)

theorem C6_jumpTo_witness:
  "handleJumpTo demoStore (demoState\<lparr>jumpToInput := ''1''\<rparr>)
     = (None, demoState\<lparr>jumpToInput := ''1'', currentIndex := 0, selectedOption := None\<rparr>)
   \<and> fst (handleJumpTo demoStore (demoState\<lparr>jumpToInput := ''0'', currentIndex := 2\<rparr>)) \<noteq> None
   \<and> currentIndex (snd (handleJumpTo demoStore (demoState\<lparr>jumpToInput := ''0'', currentIndex := 2\<rparr>))) = 2
   \<and> fst (handleJumpTo demoStore (demoState\<lparr>jumpToInput := ''4'', currentIndex := 2\<rparr>)) \<noteq> None
   \<and> currentIndex (snd (handleJumpTo demoStore (demoState\<lparr>jumpToInput := ''4'', currentIndex := 2\<rparr>))) = 2"
proof -
  have p1: "parseInt ''1'' = Some 1" and p0: "parseInt ''0'' = Some 0" and p4: "parseInt ''4'' = Some 4"
    by (simp_all add: parse_simps)
  show ?thesis
    using C6_jumpTo [of "demoState\<lparr>jumpToInput := ''1''\<rparr>" demoStore]
      C6_jumpTo [of "demoState\<lparr>jumpToInput := ''0'', currentIndex := 2\<rparr>" demoStore]
      C6_jumpTo [of "demoState\<lparr>jumpToInput := ''4'', currentIndex := 2\<rparr>" demoStore]
    by (simp add: demo_displayed p1 p0 p4 demoState_def)
qed

lemma isDigit_not_space: "isDigit c \<Longrightarrow> \<not> isWhiteSpace c"
  by (auto simp: isDigit_def isWhiteSpace_def Let_def)

lemma isDigit_not_sign: "isDigit c \<Longrightarrow> c \<noteq> CHR ''-'' \<and> c \<noteq> CHR ''+''"
  by (auto simp: isDigit_def Let_def)

lemma takeWhile_digits:
  assumes "\<forall>c \<in> set ds. isDigit c" "(case rest of [] \<Rightarrow> True | c # _ \<Rightarrow> \<not> isDigit c)"
  shows "takeWhile isDigit (ds @ rest) = ds"
proof -
  have "takeWhile isDigit rest = []"
    using assms(2) by (cases rest) auto
  with assms(1) show ?thesis
    by (simp add: takeWhile_append2)
qed

lemma parseInt_prefix:
  assumes "ds \<noteq> []" "\<forall>c \<in> set ds. isDigit c" "(case rest of [] \<Rightarrow> True | c # _ \<Rightarrow> \<not> isDigit c)"
  shows "parseInt (ds @ rest) = Some (int (decimal ds))"
proof -
  from assms(1) obtain d ds' where ds: "ds = d # ds'"
    by (cases ds) auto
  with assms(2) have d: "isDigit d" by simp
  have tw: "takeWhile isDigit ((d # ds') @ rest) = d # ds'"
    using takeWhile_digits [OF assms(2,3)] ds by simp
  have "dropWhile isWhiteSpace (ds @ rest) = d # ds' @ rest"
    using d ds by (simp add: isDigit_not_space)
  moreover have "parseDigits (d # ds' @ rest) = Some (decimal ds)"
    using tw ds by (simp add: parseDigits_def)
  ultimately show ?thesis
    using isDigit_not_sign [OF d] by (simp add: parseInt_def)
qed

text \<open>
  C10. The jump field is read with \<open>parseInt\<close>: an input that starts with a run of digits
  whose value \<open>n\<close> is between 1 and \<open>len(displayed)\<close> jumps to position \<open>n\<close>
  (\<open>currentIndex = n - 1\<close>) whatever non-digit text follows, and the field keeps its text;
  an input from which no number in that range is read raises the alert and the field is
  reset to the empty string.
\<close>

theorem C10_jump_reads_integer_prefix:
  "(ds \<noteq> [] \<and> (\<forall>c \<in> set ds. isDigit c) \<and> (case rest of [] \<Rightarrow> True | c # _ \<Rightarrow> \<not> isDigit c)
      \<and> jumpToInput s = ds @ rest
      \<and> 1 \<le> decimal ds \<and> decimal ds \<le> length (deref st (displayedQuestions s))
    \<longrightarrow> handleJumpTo st s = (None, s\<lparr>currentIndex := decimal ds - 1, selectedOption := None\<rparr>))
   \<and> ((\<exists>n. parseInt (jumpToInput s) = Some n \<and> 1 \<le> n
            \<and> n \<le> int (length (deref st (displayedQuestions s))))
    \<longrightarrow> fst (handleJumpTo st s) = None
        \<and> jumpToInput (snd (handleJumpTo st s)) = jumpToInput s)
   \<and> ((\<nexists>n. parseInt (jumpToInput s) = Some n \<and> 1 \<le> n
            \<and> n \<le> int (length (deref st (displayedQuestions s))))
    \<longrightarrow> fst (handleJumpTo st s) \<noteq> None
        \<and> jumpToInput (snd (handleJumpTo st s)) = [])"
proof (intro conjI impI)
  assume a: "ds \<noteq> [] \<and> (\<forall>c \<in> set ds. isDigit c) \<and> (case rest of [] \<Rightarrow> True | c # _ \<Rightarrow> \<not> isDigit c)
      \<and> jumpToInput s = ds @ rest
      \<and> 1 \<le> decimal ds \<and> decimal ds \<le> length (deref st (displayedQuestions s))"
  then have "parseInt (jumpToInput s) = Some (int (decimal ds))"
    using parseInt_prefix [of ds rest] by simp
  moreover have "nat (int (decimal ds) - 1) = decimal ds - 1" by simp
  ultimately show "handleJumpTo st s = (None, s\<lparr>currentIndex := decimal ds - 1, selectedOption := None\<rparr>)"
    using a handleJumpTo_valid [of s "int (decimal ds)" st] by simp
next
  assume "\<exists>n. parseInt (jumpToInput s) = Some n \<and> 1 \<le> n
            \<and> n \<le> int (length (deref st (displayedQuestions s)))"
  then obtain n where "parseInt (jumpToInput s) = Some n" "1 \<le> n"
      "n \<le> int (length (deref st (displayedQuestions s)))" by blast
  then have h: "handleJumpTo st s = (None, s\<lparr>currentIndex := nat (n - 1), selectedOption := None\<rparr>)"
    by (rule handleJumpTo_valid)
  show "fst (handleJumpTo st s) = None" by (simp add: h)
  show "jumpToInput (snd (handleJumpTo st s)) = jumpToInput s" by (simp add: h)
next
  assume n: "\<nexists>n. parseInt (jumpToInput s) = Some n \<and> 1 \<le> n
            \<and> n \<le> int (length (deref st (displayedQuestions s)))"
  show "fst (handleJumpTo st s) \<noteq> None"
    by (simp add: handleJumpTo_invalid [OF n] invalidJump_def)
  show "jumpToInput (snd (handleJumpTo st s)) = []"
    by (simp add: handleJumpTo_invalid [OF n] invalidJump_def)
qed

theorem C10_jump_reads_integer_prefix_witness:
  "handleJumpTo demoStore (demoState\<lparr>jumpToInput := ''2x''\<rparr>)
     = (None, demoState\<lparr>jumpToInput := ''2x'', currentIndex := 1, selectedOption := None\<rparr>)
   \<and> jumpToInput (snd (handleJumpTo demoStore (demoState\<lparr>jumpToInput := ''x2''\<rparr>))) = []
   \<and> jumpToInput (snd (handleJumpTo demoStore (demoState\<lparr>jumpToInput := ''9''\<rparr>))) = []"
proof -
  have px: "parseInt ''x2'' = None" and p9: "parseInt ''9'' = Some 9"
    by (simp_all add: parse_simps)
  have d2: "decimal ''2'' = 2" and dg: "isDigit CHR ''2''" and nd: "\<not> isDigit CHR ''x''"
    by (simp_all add: decimal_def digitVal_def isDigit_def)
  show ?thesis
    using C10_jump_reads_integer_prefix [of "''2''" "''x''" "demoState\<lparr>jumpToInput := ''2x''\<rparr>" demoStore]
      C10_jump_reads_integer_prefix [of "[]" "[]" "demoState\<lparr>jumpToInput := ''x2''\<rparr>" demoStore]
      C10_jump_reads_integer_prefix [of "[]" "[]" "demoState\<lparr>jumpToInput := ''9''\<rparr>" demoStore]
    by (simp add: demo_displayed px p9 d2 dg nd demoState_def)
qed

section \<open>Navigation and stored answers\<close>

text \<open>
  The claim C2 as stated fails in the browse component: select \<open>A\<close> at position 0, submit,
  go to the next question and come back. Position 0 is still submitted, but the selection
  is gone.
\<close>

theorem C2_selection_lost_counterexample:
  "selectedOption (handleSubmit (handleOptionSelect ''A'' demoState)) = Some ''A''
   \<and> 0 \<in> submittedIndices (handleSubmit (handleOptionSelect ''A'' demoState))
   \<and> currentIndex (handlePrevious (handleNext demoStore
        (handleSubmit (handleOptionSelect ''A'' demoState)))) = 0
   \<and> 0 \<in> submittedIndices (handlePrevious (handleNext demoStore
        (handleSubmit (handleOptionSelect ''A'' demoState))))
   \<and> selectedOption (handlePrevious (handleNext demoStore
        (handleSubmit (handleOptionSelect ''A'' demoState)))) = None"
  by (simp add: handleSubmit_def handleOptionSelect_def handlePrevious_def handleNext_def
      demoState_def demo_displayed)

text \<open>
  C2, amended. \<open>handleNext\<close> and \<open>handlePrevious\<close> never change the submitted positions;
  the browse component keeps a single staged selection, and every move that changes the
  position resets it to none. In the quiz component \<open>handleSubmit\<close> keeps every entry of
  \<open>selectedAnswers\<close>, and selecting an answer changes no entry but that of the index it
  writes.
\<close>

theorem C2_navigation_keeps_submitted:
  "submittedIndices (handleNext st s) = submittedIndices s
   \<and> submittedIndices (handlePrevious s) = submittedIndices s
   \<and> (currentIndex (handleNext st s) \<noteq> currentIndex s \<longrightarrow> selectedOption (handleNext st s) = None)
   \<and> (currentIndex (handlePrevious s) \<noteq> currentIndex s \<longrightarrow> selectedOption (handlePrevious s) = None)
   \<and> selectedAnswers (quiz_handleSubmit q) = selectedAnswers q
   \<and> (i \<noteq> qz_currentIndex q \<longrightarrow> selectedAnswers (handleAnswerSelect1 opt q) i = selectedAnswers q i)
   \<and> (i \<noteq> j \<longrightarrow> selectedAnswers (handleAnswerSelect2 j opt q) i = selectedAnswers q i)"
  by (simp add: handleNext_def handlePrevious_def quiz_handleSubmit_def handleAnswerSelect1_def
      handleAnswerSelect2_def)

theorem C2_navigation_keeps_submitted_witness:
  "submittedIndices (handleNext demoStore
       (demoState\<lparr>selectedOption := Some ''A'', submittedIndices := {0}\<rparr>)) = {0}
   \<and> selectedOption (handleNext demoStore
       (demoState\<lparr>selectedOption := Some ''A'', submittedIndices := {0}\<rparr>)) = None
   \<and> selectedOption (handlePrevious
       (demoState\<lparr>currentIndex := 1, selectedOption := Some ''B''\<rparr>)) = None
   \<and> selectedAnswers (handleAnswerSelect1 ''B''
       ((initialQuiz [keyless, keyless])\<lparr>selectedAnswers := [1 \<mapsto> ''A'']\<rparr>)) 1 = Some ''A''
   \<and> selectedAnswers (handleAnswerSelect2 0 ''B''
       ((initialQuiz [keyless, keyless])\<lparr>selectedAnswers := [1 \<mapsto> ''A'']\<rparr>)) 1 = Some ''A''"
  using C2_navigation_keeps_submitted
      [of demoStore "demoState\<lparr>selectedOption := Some ''A'', submittedIndices := {0}\<rparr>"
          "(initialQuiz [keyless, keyless])\<lparr>selectedAnswers := [1 \<mapsto> ''A'']\<rparr>" 1 "''B''" 0]
    C2_navigation_keeps_submitted
      [of demoStore "demoState\<lparr>currentIndex := 1, selectedOption := Some ''B''\<rparr>"
          "(initialQuiz [keyless, keyless])\<lparr>selectedAnswers := [1 \<mapsto> ''A'']\<rparr>" 1 "''B''" 0]
  by (simp add: handleNext_def handlePrevious_def demoState_def demo_displayed initialQuiz_def)


section \<open>Escape conversion\<close>

lemma replace_head:
  "\<exists>xs. replace_backslash_n (d # cs) = d # xs \<or> replace_backslash_n (d # cs) = CHR 0x0A # xs"
  by (cases cs) auto

lemma replace_no_escape_left:
  "\<not> str_includes (replace_backslash_n t) [CHR 0x5C, CHR ''n'']"
proof (induction t rule: replace_backslash_n.induct)
  case (1 c d cs)
  show ?case
  proof (cases "c = CHR 0x5C \<and> d = CHR ''n''")
    case True
    with 1 show ?thesis by simp
  next
    case False
    obtain xs where "replace_backslash_n (d # cs) = d # xs \<or> replace_backslash_n (d # cs) = CHR 0x0A # xs"
      using replace_head by blast
    with False 1 show ?thesis by auto
  qed
qed simp_all

lemma replace_append_escape:
  "replace_backslash_n (a @ [CHR 0x5C, CHR ''n''] @ b)
     = replace_backslash_n a @ [CHR 0x0A] @ replace_backslash_n b"
  by (induction a rule: replace_backslash_n.induct) simp_all

lemma replace_without_escape:
  "\<not> str_includes t [CHR 0x5C, CHR ''n''] \<Longrightarrow> replace_backslash_n t = t"
  by (induction t rule: replace_backslash_n.induct) auto

lemma replace_empty_iff: "replace_backslash_n t = [] \<longleftrightarrow> t = []"
  by (cases t rule: replace_backslash_n.cases) auto

lemma replacedOrNull_Some: "t \<noteq> [] \<Longrightarrow> replacedOrNull (Some t) = Some (replace_backslash_n t)"
  by (simp add: replacedOrNull_def orNull_def replace_empty_iff)

text \<open>
  The claim C8 as stated fails on the row mapping of the second quiz variant: the conversion
  is not restricted to the free-text fields. A \<open>Paper\<close> cell and a \<open>Correct Answer\<close> cell
  that contain the escape are converted too.
\<close>

theorem C8_paper_converted_counterexample:
  "qz_paper (quizRow2 [''Paper'' \<mapsto> [CHR ''G'', CHR 0x5C, CHR ''n'', CHR ''S'']] 0)
     = Some [CHR ''G'', CHR 0x0A, CHR ''S'']
   \<and> qz_correct_option (quizRow2 [''Correct Answer'' \<mapsto> [CHR ''A'', CHR 0x5C, CHR ''n'']] 0)
     = Some [CHR ''A'', CHR 0x0A]"
  by (simp add: quizRow2_def replacedOrNull_def orNull_def)

text \<open>
  C8, amended. The conversion turns every backslash-n pair into one line feed (it
  distributes over each occurrence, leaves no pair behind, and changes nothing else). The
  row mapping of the second quiz variant applies it to each of the twelve text cells of a
  row, every field depending on its own cell only; an absent or empty cell gives null. In
  the browse component \<open>formatText\<close> applies the same conversion to the text it is given.
\<close>

theorem C8_escape_conversion:
  "replace_backslash_n (a @ [CHR 0x5C, CHR ''n''] @ b)
     = replace_backslash_n a @ [CHR 0x0A] @ replace_backslash_n b
   \<and> \<not> str_includes (replace_backslash_n t) [CHR 0x5C, CHR ''n'']
   \<and> (\<not> str_includes t [CHR 0x5C, CHR ''n''] \<longrightarrow> replace_backslash_n t = t)
   \<and> replacedOrNull None = None
   \<and> replacedOrNull (Some []) = None
   \<and> (t \<noteq> [] \<longrightarrow> replacedOrNull (Some t) = Some (replace_backslash_n t))
   \<and> qz_paper (quizRow2 row i) = replacedOrNull (row ''Paper'')
   \<and> qz_passage (quizRow2 row i) = replacedOrNull (row ''Passage'')
   \<and> qz_question (quizRow2 row i) = replacedOrNull (row ''Question'')
   \<and> qz_option_a (quizRow2 row i) = replacedOrNull (row ''Option A'')
   \<and> qz_option_b (quizRow2 row i) = replacedOrNull (row ''Option B'')
   \<and> qz_option_c (quizRow2 row i) = replacedOrNull (row ''Option C'')
   \<and> qz_option_d (quizRow2 row i) = replacedOrNull (row ''Option D'')
   \<and> qz_correct_option (quizRow2 row i) = replacedOrNull (row ''Correct Answer'')
   \<and> qz_explanation (quizRow2 row i) = replacedOrNull (row ''Explanation'')
   \<and> qz_subject (quizRow2 row i) = replacedOrNull (row ''Subject'')
   \<and> qz_topic (quizRow2 row i) = replacedOrNull (row ''Topic'')
   \<and> qz_year (quizRow2 row i) = replacedOrNull (row ''Year'')
   \<and> formatText None = []
   \<and> formatText (Some t) = replace_backslash_n t"
proof -
  have f: "formatText (Some t) = replace_backslash_n t"
    by (cases t) (simp_all add: formatText_def orEmpty_def)
  have n: "replacedOrNull None = None" "replacedOrNull (Some []) = None"
    by (simp_all add: replacedOrNull_def orNull_def)
  have r: "qz_paper (quizRow2 row i) = replacedOrNull (row ''Paper'')"
    "qz_passage (quizRow2 row i) = replacedOrNull (row ''Passage'')"
    "qz_question (quizRow2 row i) = replacedOrNull (row ''Question'')"
    "qz_option_a (quizRow2 row i) = replacedOrNull (row ''Option A'')"
    "qz_option_b (quizRow2 row i) = replacedOrNull (row ''Option B'')"
    "qz_option_c (quizRow2 row i) = replacedOrNull (row ''Option C'')"
    "qz_option_d (quizRow2 row i) = replacedOrNull (row ''Option D'')"
    "qz_correct_option (quizRow2 row i) = replacedOrNull (row ''Correct Answer'')"
    "qz_explanation (quizRow2 row i) = replacedOrNull (row ''Explanation'')"
    "qz_subject (quizRow2 row i) = replacedOrNull (row ''Subject'')"
    "qz_topic (quizRow2 row i) = replacedOrNull (row ''Topic'')"
    "qz_year (quizRow2 row i) = replacedOrNull (row ''Year'')"
    by (simp_all add: quizRow2_def)
  show ?thesis
    using replace_append_escape [of a b] replace_no_escape_left [of t]
      replace_without_escape [of t] replacedOrNull_Some [of t] f n r
    by (simp add: formatText_def)
qed

theorem C8_escape_conversion_witness:
  "replace_backslash_n ''plain'' = ''plain''
   \<and> qz_passage (quizRow2 [''Passage'' \<mapsto> [CHR ''x'', CHR 0x5C, CHR ''n'', CHR ''y'']] 0)
       = Some [CHR ''x'', CHR 0x0A, CHR ''y'']
   \<and> formatText (Some [CHR ''x'', CHR 0x5C, CHR ''n'', CHR ''y'']) = [CHR ''x'', CHR 0x0A, CHR ''y'']"
  using C8_escape_conversion [of "''x''" "''y''" "''plain''"
      "[''Passage'' \<mapsto> [CHR ''x'', CHR 0x5C, CHR ''n'', CHR ''y'']]" 0]
    C8_escape_conversion [of "''x''" "''y''" "[CHR ''x'', CHR 0x5C, CHR ''n'', CHR ''y'']"
      "[''Passage'' \<mapsto> [CHR ''x'', CHR 0x5C, CHR ''n'', CHR ''y'']]" 0]
  by simp


section \<open>The store and the displayed set\<close>

lemma frame_refl: "frame st st"
  by (simp add: frame_def)

lemma frame_trans: "frame st1 st2 \<Longrightarrow> frame st2 st3 \<Longrightarrow> frame st1 st3"
  by (auto simp: frame_def)

lemma allocArray_frame: "frame st (snd (allocArray st xs))"
  by (simp add: frame_def allocArray_def)

lemma allocArray_addr: "fst (allocArray st xs) = fresh st"
  by (simp add: allocArray_def)

lemma allocArray_fresh: "fresh (snd (allocArray st xs)) = Suc (fresh st)"
  by (simp add: allocArray_def)

lemma allocArray_deref: "deref (snd (allocArray st xs)) (fresh st) = xs"
  by (simp add: allocArray_def deref_def)

lemma allocArray_arrays: "arrays (snd (allocArray st xs)) (fresh st) = Some xs"
  by (simp add: allocArray_def)

lemma frame_deref: "frame st st' \<Longrightarrow> a < fresh st \<Longrightarrow> deref st' a = deref st a"
  by (simp add: frame_def deref_def)

lemma swapInPlace_other: "b \<noteq> a \<Longrightarrow> arrays (swapInPlace st a i j) b = arrays st b"
  by (simp add: swapInPlace_def split: option.splits)

lemma swapInPlace_fresh: "fresh (swapInPlace st a i j) = fresh st"
  by (simp add: swapInPlace_def split: option.splits)

lemma shuffleLoop_other: "b \<noteq> a \<Longrightarrow> arrays (shuffleLoop random k a n st) b = arrays st b"
  by (induction n arbitrary: st k) (simp_all add: swapInPlace_other Let_def)

lemma shuffleLoop_fresh: "fresh (shuffleLoop random k a n st) = fresh st"
  by (induction n arbitrary: st k) (simp_all add: swapInPlace_fresh Let_def)

lemma shuffleArray_addr: "fst (shuffleArray random st a) = fresh st"
  by (simp add: shuffleArray_def spread_def allocArray_def Let_def)

lemma shuffleArray_fresh: "fresh (snd (shuffleArray random st a)) = Suc (fresh st)"
  by (simp add: shuffleArray_def spread_def allocArray_def Let_def shuffleLoop_fresh)

lemma shuffleArray_frame: "frame st (snd (shuffleArray random st a))"
  by (simp add: frame_def shuffleArray_def spread_def allocArray_def Let_def shuffleLoop_fresh
      shuffleLoop_other)

lemma random_index_bound:
  assumes "0 \<le> r" "r < 1"
  shows "nat \<lfloor>r * real (Suc n)\<rfloor> < Suc n"
proof -
  have "r * real (Suc n) < real (Suc n)"
    using assms by simp
  then have "\<lfloor>r * real (Suc n)\<rfloor> < int (Suc n)"
    by (simp add: floor_less_iff)
  then show ?thesis by linarith
qed

lemma swapInPlace_mset:
  assumes "arrays st a = Some xs" "i < length xs" "j < length xs"
  shows "\<exists>ys. arrays (swapInPlace st a i j) a = Some ys \<and> mset ys = mset xs \<and> length ys = length xs"
  using assms mset_swap [of j xs i] by (simp add: swapInPlace_def)

lemma shuffleLoop_mset:
  assumes "\<forall>k. 0 \<le> random k \<and> random k < 1" "arrays st a = Some xs" "n \<le> length xs"
  shows "\<exists>ys. arrays (shuffleLoop random k a n st) a = Some ys \<and> mset ys = mset xs"
  using assms(2,3)
proof (induction n arbitrary: st k xs)
  case 0
  then show ?case by simp
next
  case (Suc n)
  let ?ri = "nat \<lfloor>random k * real (Suc n)\<rfloor>"
  have ri: "?ri < length xs"
    using random_index_bound [of "random k" n] assms(1) Suc.prems(2) by (meson less_le_trans)
  have n: "n < length xs" using Suc.prems(2) by simp
  obtain ys where ys: "arrays (swapInPlace st a n ?ri) a = Some ys" "mset ys = mset xs"
      "length ys = length xs"
    using swapInPlace_mset [OF Suc.prems(1) n ri] by blast
  have "n \<le> length ys" using ys(3) n by simp
  from Suc.IH [OF ys(1) this, of "Suc k"] ys(2) show ?case
    by (simp add: Let_def)
qed

lemma shuffleArray_mset:
  assumes "\<forall>k. 0 \<le> random k \<and> random k < 1"
  shows "mset (deref (snd (shuffleArray random st a)) (fst (shuffleArray random st a))) = mset (deref st a)"
proof -
  let ?st1 = "snd (allocArray st (deref st a))"
  have "arrays ?st1 (fresh st) = Some (deref st a)" by (rule allocArray_arrays)
  from shuffleLoop_mset [OF assms this order_refl, of 0]
  obtain ys where "arrays (shuffleLoop random 0 (fresh st) (length (deref st a)) ?st1) (fresh st) = Some ys"
      "mset ys = mset (deref st a)" by blast
  then show ?thesis
    by (simp add: shuffleArray_def spread_def Let_def split_beta allocArray_addr deref_def)
qed

lemma spread_ok: "pipelineOk st (spread st a)"
  by (simp add: pipelineOk_def spread_def allocArray_frame allocArray_addr allocArray_fresh)

lemma filterArray_ok:
  assumes "pipelineOk st fs"
  shows "pipelineOk st (filterArray (snd fs) (fst fs) p)"
proof -
  have "frame st (snd (filterArray (snd fs) (fst fs) p))"
    using assms by (auto simp: pipelineOk_def filterArray_def intro: frame_trans allocArray_frame)
  moreover have "fresh st \<le> fresh (snd fs)"
    using assms by (simp add: pipelineOk_def frame_def)
  ultimately show ?thesis
    by (simp add: pipelineOk_def filterArray_def allocArray_addr allocArray_fresh)
qed

lemma filterIf_ok: "pipelineOk st fs \<Longrightarrow> pipelineOk st (filterIf c p fs)"
  by (simp add: filterIf_def filterArray_ok)

lemma idFilter_ok: "pipelineOk st fs \<Longrightarrow> pipelineOk st (idFilter t fs)"
  by (simp add: idFilter_def filterArray_ok split: option.splits)

lemma shuffleIf_ok:
  assumes "pipelineOk st fs"
  shows "pipelineOk st (shuffleIf c random fs)"
proof (cases c)
  case True
  have "frame st (snd (shuffleArray random (snd fs) (fst fs)))"
    using assms by (auto simp: pipelineOk_def intro: frame_trans shuffleArray_frame)
  moreover have "fresh st \<le> fresh (snd fs)"
    using assms by (simp add: pipelineOk_def frame_def)
  ultimately show ?thesis
    using True by (simp add: shuffleIf_def pipelineOk_def shuffleArray_addr shuffleArray_fresh)
next
  case False
  with assms show ?thesis by (simp add: shuffleIf_def)
qed

lemma held_spread: "held (spread st a) = deref st a"
  by (simp add: held_def spread_def allocArray_def deref_def)

lemma held_filterArray: "held (filterArray st a p) = filter p (deref st a)"
  by (simp add: held_def filterArray_def allocArray_def deref_def)

lemma held_filterIf: "held (filterIf c p fs) = filter (\<lambda>q. \<not> c \<or> p q) (held fs)"
  by (cases c) (simp_all add: filterIf_def held_filterArray, simp add: held_def)

lemma held_idFilter:
  "held (idFilter t fs) =
     filter (\<lambda>q. case parseInt t of None \<Rightarrow> True | Some n \<Rightarrow> t = [] \<or> int (qid q) = n) (held fs)"
proof (cases "t = []")
  case True
  then show ?thesis by (simp add: idFilter_def split: option.splits)
next
  case False
  then show ?thesis
    by (cases "parseInt t") (simp_all add: idFilter_def held_filterArray, simp add: held_def)
qed

lemma mset_held_shuffleIf:
  "\<forall>k. 0 \<le> random k \<and> random k < 1 \<Longrightarrow> mset (held (shuffleIf c random fs)) = mset (held fs)"
  by (simp add: shuffleIf_def held_def shuffleArray_mset)

lemma held_shuffleIf_False: "held (shuffleIf False random fs) = held fs"
  by (simp add: shuffleIf_def)

lemma update_guarded:
  "guarded st s \<Longrightarrow>
   updateDisplayedQuestions random st s =
     (snd (allocArray st []), resetNavigation (s\<lparr>displayedQuestions := fresh st\<rparr>))"
  by (simp add: updateDisplayedQuestions_def guarded_def allocArray_def)

lemma update_unguarded:
  "\<not> guarded st s \<Longrightarrow>
   updateDisplayedQuestions random st s =
     (snd (shuffleIf (isRandom s) random (filteredPipeline st s)),
      resetNavigation (s\<lparr>displayedQuestions := fst (shuffleIf (isRandom s) random (filteredPipeline st s))\<rparr>))"
  by (simp add: updateDisplayedQuestions_def guarded_def filteredPipeline_def Let_def)

lemma filteredPipeline_ok: "pipelineOk st (filteredPipeline st s)"
  unfolding filteredPipeline_def by (intro filterIf_ok idFilter_ok spread_ok)

lemma held_filteredPipeline:
  "held (filteredPipeline st s)
     = filter (viewFilterSpec (filters s) (debouncedSearchTerm s)) (deref st (allQuestions s))"
proof -
  have "held (filteredPipeline st s)
      = filter (\<lambda>q. (((((\<not> flt_paper (filters s) \<noteq> [] \<or> paper q = Some (flt_paper (filters s)))
              \<and> (\<not> flt_subject (filters s) \<noteq> [] \<or> subject q = Some (flt_subject (filters s))))
              \<and> (\<not> flt_topic (filters s) \<noteq> [] \<or> topic q = Some (flt_topic (filters s))))
              \<and> (\<not> flt_year (filters s) \<noteq> [] \<or> year q = Some (flt_year (filters s))))
              \<and> (case parseInt (flt_id (filters s)) of None \<Rightarrow> True
                  | Some n \<Rightarrow> flt_id (filters s) = [] \<or> int (qid q) = n))
              \<and> (\<not> debouncedSearchTerm s \<noteq> []
                  \<or> matchesSearch (toLowerCase (debouncedSearchTerm s)) q))
          (deref st (allQuestions s))"
    unfolding filteredPipeline_def held_filterIf held_idFilter held_spread filter_filter ..
  also have "\<dots> = filter (viewFilterSpec (filters s) (debouncedSearchTerm s)) (deref st (allQuestions s))"
    by (rule filter_cong [OF refl]) (simp add: viewFilterSpec_def)
  finally show ?thesis .
qed

lemma update_frame:
  "frame st (fst (updateDisplayedQuestions random st s))
   \<and> fresh st \<le> displayedQuestions (snd (updateDisplayedQuestions random st s))
   \<and> allQuestions (snd (updateDisplayedQuestions random st s)) = allQuestions s"
proof (cases "guarded st s")
  case True
  then show ?thesis
    by (simp add: update_guarded allocArray_frame resetNavigation_def)
next
  case False
  have "pipelineOk st (shuffleIf (isRandom s) random (filteredPipeline st s))"
    by (intro shuffleIf_ok filteredPipeline_ok)
  with False show ?thesis
    by (simp add: update_unguarded pipelineOk_def resetNavigation_def)
qed

lemma update_displayed_plain:
  assumes "\<not> isRandom s"
  shows "deref (fst (updateDisplayedQuestions random st s))
           (displayedQuestions (snd (updateDisplayedQuestions random st s)))
         = (if isLoadingCsv s \<or> truthy (csvError s) then []
            else filter (viewFilterSpec (filters s) (debouncedSearchTerm s)) (deref st (allQuestions s)))"
proof (cases "guarded st s")
  case True
  then show ?thesis
    by (auto simp: update_guarded resetNavigation_def allocArray_deref guarded_def)
next
  case False
  have "held (shuffleIf False random (filteredPipeline st s))
      = filter (viewFilterSpec (filters s) (debouncedSearchTerm s)) (deref st (allQuestions s))"
    by (simp add: held_shuffleIf_False held_filteredPipeline)
  with False assms show ?thesis
    by (simp add: update_unguarded resetNavigation_def held_def guarded_def)
qed

lemma update_displayed_mset:
  assumes "\<forall>k. 0 \<le> random k \<and> random k < 1"
  shows "mset (deref (fst (updateDisplayedQuestions random st s))
           (displayedQuestions (snd (updateDisplayedQuestions random st s))))
         = (if isLoadingCsv s \<or> truthy (csvError s) then {#}
            else mset (filter (viewFilterSpec (filters s) (debouncedSearchTerm s))
                   (deref st (allQuestions s))))"
proof (cases "guarded st s")
  case True
  then show ?thesis
    by (auto simp: update_guarded resetNavigation_def allocArray_deref guarded_def)
next
  case False
  have "mset (held (shuffleIf (isRandom s) random (filteredPipeline st s)))
      = mset (filter (viewFilterSpec (filters s) (debouncedSearchTerm s)) (deref st (allQuestions s)))"
    by (simp only: mset_held_shuffleIf [OF assms] held_filteredPipeline)
  with False show ?thesis
    by (simp add: update_unguarded resetNavigation_def held_def guarded_def)
qed

text \<open>
  C9. Recomputing the displayed set, with any filters, search term, randomize flag and
  random source, leaves the array of the full collection as it was, elements and order:
  the state variable still points to it, the store holds the same list at its address,
  and the displayed set is another array. \<open>shuffleArray\<close> itself, given the collection,
  swaps in a copy and leaves the collection alone.
\<close>

theorem C9_collection_not_mutated:
  "allQuestions s < fresh st \<Longrightarrow>
     allQuestions (snd (updateDisplayedQuestions random st s)) = allQuestions s
     \<and> arrays (fst (updateDisplayedQuestions random st s)) (allQuestions s)
         = arrays st (allQuestions s)
     \<and> deref (fst (updateDisplayedQuestions random st s)) (allQuestions s)
         = deref st (allQuestions s)
     \<and> displayedQuestions (snd (updateDisplayedQuestions random st s)) \<noteq> allQuestions s
     \<and> arrays (snd (shuffleArray random st (allQuestions s))) (allQuestions s)
         = arrays st (allQuestions s)
     \<and> deref (snd (shuffleArray random st (allQuestions s))) (allQuestions s)
         = deref st (allQuestions s)
     \<and> fst (shuffleArray random st (allQuestions s)) \<noteq> allQuestions s"
proof -
  assume a: "allQuestions s < fresh st"
  have f: "frame st (fst (updateDisplayedQuestions random st s))"
    and d: "fresh st \<le> displayedQuestions (snd (updateDisplayedQuestions random st s))"
    and q: "allQuestions (snd (updateDisplayedQuestions random st s)) = allQuestions s"
    using update_frame [of st random s] by simp_all
  have "arrays (fst (updateDisplayedQuestions random st s)) (allQuestions s)
      = arrays st (allQuestions s)"
    using f a by (simp add: frame_def)
  moreover have "arrays (snd (shuffleArray random st (allQuestions s))) (allQuestions s)
      = arrays st (allQuestions s)"
    using shuffleArray_frame [of st random "allQuestions s"] a by (simp add: frame_def)
  ultimately show ?thesis
    using a d q by (simp add: deref_def shuffleArray_addr)
qed

theorem C9_collection_not_mutated_witness:
  "allQuestions shuffledState < fresh demoStore
   \<and> deref (fst (updateDisplayedQuestions (\<lambda>k. 0) demoStore shuffledState))
        (displayedQuestions (snd (updateDisplayedQuestions (\<lambda>k. 0) demoStore shuffledState)))
        = [q2, q1]
   \<and> deref (fst (updateDisplayedQuestions (\<lambda>k. 0) demoStore shuffledState)) 0 = [q1, q2, q3]
   \<and> deref (snd (shuffleArray (\<lambda>k. 0) demoStore 0)) (fst (shuffleArray (\<lambda>k. 0) demoStore 0))
        = [q2, q3, q1]
   \<and> deref (snd (shuffleArray (\<lambda>k. 0) demoStore 0)) 0 = [q1, q2, q3]"
proof -
  have a: "allQuestions shuffledState < fresh demoStore"
    by (simp add: shuffledState_def demoState_def demoStore_def)
  have d: "deref demoStore 0 = [q1, q2, q3]"
    by (simp add: demoStore_def deref_def)
  have z: "allQuestions shuffledState = 0"
    by (simp add: shuffledState_def demoState_def)
  have u: "deref (fst (updateDisplayedQuestions (\<lambda>k. 0) demoStore shuffledState))
        (displayedQuestions (snd (updateDisplayedQuestions (\<lambda>k. 0) demoStore shuffledState)))
        = [q2, q1]"
    by (simp add: updateDisplayedQuestions_def shuffledState_def demoState_def demoStore_def
        noFilters_def deref_def spread_def allocArray_def filterIf_def filterArray_def
        idFilter_def shuffleIf_def shuffleArray_def swapInPlace_def resetNavigation_def
        q1_def q2_def q3_def Let_def)
  have sh: "deref (snd (shuffleArray (\<lambda>k. 0) demoStore 0)) (fst (shuffleArray (\<lambda>k. 0) demoStore 0))
        = [q2, q3, q1]"
    by (simp add: demoStore_def deref_def spread_def allocArray_def shuffleArray_def
        swapInPlace_def Let_def)
  show ?thesis
    using C9_collection_not_mutated [OF a, of "\<lambda>k. 0"] a d u sh by (simp add: z)
qed


section \<open>Loading and identifiers\<close>

lemma map_mapi: "map g (mapi f xs) = map (\<lambda>(x, i). g (f x i)) (zip xs [0..<length xs])"
  by (simp add: mapi_def case_prod_unfold comp_def)

lemma ids_of_zip:
  "map (\<lambda>(x, i). Suc i) (zip xs [0..<length xs]) = [1..<Suc (length xs)]"
proof -
  have "map (\<lambda>(x, i). Suc i) (zip xs [0..<length xs]) = map (Suc \<circ> snd) (zip xs [0..<length xs])"
    by (simp add: case_prod_unfold comp_def)
  also have "\<dots> = map Suc (map snd (zip xs [0..<length xs]))"
    by (simp only: map_map)
  also have "\<dots> = map Suc [0..<length xs]" by simp
  also have "\<dots> = [1..<Suc (length xs)]" by (simp add: map_Suc_upt)
  finally show ?thesis .
qed

lemma processedData_ids: "map qid (processedData rows) = [1..<Suc (length rows)]"
  by (simp add: processedData_def map_mapi processRow_def ids_of_zip)

lemma processedData_length: "length (processedData rows) = length rows"
  by (simp add: processedData_def mapi_def)

lemma quiz_ids1: "map qz_id (questions (handleFileUpload1 rows)) = [1..<Suc (length rows)]"
  by (simp add: handleFileUpload1_def initialQuiz_def map_mapi quizRow1_def ids_of_zip)

lemma quiz_ids2: "map qz_id (questions (handleFileUpload2 rows)) = [1..<Suc (length rows)]"
  by (simp add: handleFileUpload2_def initialQuiz_def map_mapi quizRow2_def ids_of_zip)

lemma complete_accepts:
  assumes "errors r = []" "data r = firstRow # rest" "missingKeys firstRow = []"
  shows "complete st s r =
           (snd (allocArray st (processedData (data r))),
            s\<lparr>allQuestions := fresh st, isLoadingCsv := False\<rparr>)"
  using assms by (simp add: complete_def allocArray_def)

lemma complete_rejects:
  assumes "errors r = []" "data r = firstRow # rest" "missingKeys firstRow \<noteq> []"
  shows "complete st s r =
           (st, s\<lparr>csvError := Some (missingMessage (missingKeys firstRow)), isLoadingCsv := False\<rparr>)"
  using assms by (simp add: complete_def)

lemma loadStart_empty:
  "deref (fst (loadStart st s)) (allQuestions (snd (loadStart st s))) = []
   \<and> csvError (snd (loadStart st s)) = None"
  by (simp add: loadStart_def allocArray_def deref_def)

lemma missing_goodRow: "missingKeys goodRow = []"
  by (simp add: missingKeys_def requiredTransformedKeys_def isMissing_def goodRow_def)

lemma missing_badRow: "missingKeys badRow = [''option_c'', ''option_d'', ''correct_option'']"
  by (simp add: missingKeys_def requiredTransformedKeys_def isMissing_def badRow_def)

lemma missingKeys_exact:
  "missingKeys firstRow =
     filter (\<lambda>key. firstRow key = None \<or> firstRow key = Some Null \<or> firstRow key = Some (Text []))
       requiredTransformedKeys"
  unfolding missingKeys_def
  by (rule filter_cong [OF refl]) (simp add: isMissing_def split: option.splits cell.splits)

lemma mapi_nth: "i < length xs \<Longrightarrow> mapi f xs ! i = f (xs ! i) i"
  by (simp add: mapi_def)

lemma processedData_nth: "i < length rows \<Longrightarrow> processedData rows ! i = processRow (rows ! i) i"
  by (simp add: processedData_def mapi_nth)

lemma quiz_nth1:
  "i < length rows \<Longrightarrow> questions (handleFileUpload1 rows) ! i = quizRow1 (rows ! i) i"
  by (simp add: handleFileUpload1_def initialQuiz_def mapi_nth)

lemma quiz_nth2:
  "i < length rows \<Longrightarrow> questions (handleFileUpload2 rows) ! i = quizRow2 (rows ! i) i"
  by (simp add: handleFileUpload2_def initialQuiz_def mapi_nth)

text \<open>
  C4. The collection built from \<open>N\<close> decoded rows has \<open>N\<close> questions; the question at
  position \<open>i\<close> is built from row \<open>i\<close> of the input and has id \<open>i + 1\<close>, so the ids are
  \<open>1, 2, ..., N\<close> in input order, in the browse component and in the quiz; an accepted
  load stores exactly that collection. The displayed set is a subsequence of the
  collection when the order is not random, and in any case (with \<open>Math.random\<close> in
  \<open>[0, 1)\<close>) a sub-multiset of it: the questions shown are questions of the collection,
  ids included.
\<close>

theorem C4_ids_dense_and_stable:
  "map qid (processedData rows) = [1..<Suc (length rows)]
   \<and> length (processedData rows) = length rows
   \<and> (i < length rows \<longrightarrow>
         processedData rows ! i = processRow (rows ! i) i
       \<and> processedData rows ! i =
           \<lparr> qid = i + 1,
             paper = nullish ((rows ! i) ''paper''),
             subject = nullish ((rows ! i) ''subject''),
             topic = nullish ((rows ! i) ''topic''),
             year = nullish ((rows ! i) ''year''),
             passage = nullish ((rows ! i) ''passage''),
             question = nullish ((rows ! i) ''question''),
             option_a = nullish ((rows ! i) ''option_a''),
             option_b = nullish ((rows ! i) ''option_b''),
             option_c = nullish ((rows ! i) ''option_c''),
             option_d = nullish ((rows ! i) ''option_d''),
             correct_option = nullish ((rows ! i) ''correct_option''),
             explanation = nullish ((rows ! i) ''explanation''),
             image_url = nullish ((rows ! i) ''image_url'') \<rparr>)
   \<and> map qz_id (questions (handleFileUpload1 quizRows)) = [1..<Suc (length quizRows)]
   \<and> length (questions (handleFileUpload1 quizRows)) = length quizRows
   \<and> (j < length quizRows \<longrightarrow>
         questions (handleFileUpload1 quizRows) ! j = quizRow1 (quizRows ! j) j
       \<and> qz_id (questions (handleFileUpload1 quizRows) ! j) = j + 1
       \<and> qz_question (questions (handleFileUpload1 quizRows) ! j)
           = orNull ((quizRows ! j) ''Question'')
       \<and> qz_correct_option (questions (handleFileUpload1 quizRows) ! j)
           = orNull ((quizRows ! j) ''Correct Answer''))
   \<and> map qz_id (questions (handleFileUpload2 quizRows)) = [1..<Suc (length quizRows)]
   \<and> (j < length quizRows \<longrightarrow>
         questions (handleFileUpload2 quizRows) ! j = quizRow2 (quizRows ! j) j)
   \<and> (errors r = [] \<and> data r = firstRow # rest \<and> missingKeys firstRow = []
        \<longrightarrow> deref (fst (complete st s r)) (allQuestions (snd (complete st s r)))
              = processedData (data r)
          \<and> length (deref (fst (complete st s r)) (allQuestions (snd (complete st s r))))
              = length (data r)
          \<and> map qid (deref (fst (complete st s r)) (allQuestions (snd (complete st s r))))
              = [1..<Suc (length (data r))]
          \<and> (\<forall>n. n < length (data r) \<longrightarrow>
                deref (fst (complete st s r)) (allQuestions (snd (complete st s r))) ! n
                  = processRow (data r ! n) n))
   \<and> (\<not> isRandom s
        \<longrightarrow> subseq (deref (fst (updateDisplayedQuestions random st s))
                       (displayedQuestions (snd (updateDisplayedQuestions random st s))))
                    (deref st (allQuestions s)))
   \<and> ((\<forall>k. 0 \<le> random k \<and> random k < 1)
        \<longrightarrow> mset (deref (fst (updateDisplayedQuestions random st s))
                       (displayedQuestions (snd (updateDisplayedQuestions random st s))))
              \<subseteq># mset (deref st (allQuestions s)))"
proof -
  have browse: "i < length rows \<longrightarrow>
         processedData rows ! i = processRow (rows ! i) i
       \<and> processedData rows ! i =
           \<lparr> qid = i + 1,
             paper = nullish ((rows ! i) ''paper''),
             subject = nullish ((rows ! i) ''subject''),
             topic = nullish ((rows ! i) ''topic''),
             year = nullish ((rows ! i) ''year''),
             passage = nullish ((rows ! i) ''passage''),
             question = nullish ((rows ! i) ''question''),
             option_a = nullish ((rows ! i) ''option_a''),
             option_b = nullish ((rows ! i) ''option_b''),
             option_c = nullish ((rows ! i) ''option_c''),
             option_d = nullish ((rows ! i) ''option_d''),
             correct_option = nullish ((rows ! i) ''correct_option''),
             explanation = nullish ((rows ! i) ''explanation''),
             image_url = nullish ((rows ! i) ''image_url'') \<rparr>"
    by (simp add: processedData_nth) (simp add: processRow_def)
  have quiz1: "j < length quizRows \<longrightarrow>
         questions (handleFileUpload1 quizRows) ! j = quizRow1 (quizRows ! j) j
       \<and> qz_id (questions (handleFileUpload1 quizRows) ! j) = j + 1
       \<and> qz_question (questions (handleFileUpload1 quizRows) ! j)
           = orNull ((quizRows ! j) ''Question'')
       \<and> qz_correct_option (questions (handleFileUpload1 quizRows) ! j)
           = orNull ((quizRows ! j) ''Correct Answer'')"
    by (simp add: quiz_nth1) (simp add: quizRow1_def)
  have quiz2: "j < length quizRows \<longrightarrow>
         questions (handleFileUpload2 quizRows) ! j = quizRow2 (quizRows ! j) j"
    by (simp add: quiz_nth2)
  have load: "errors r = [] \<and> data r = firstRow # rest \<and> missingKeys firstRow = []
        \<longrightarrow> deref (fst (complete st s r)) (allQuestions (snd (complete st s r)))
              = processedData (data r)
          \<and> length (deref (fst (complete st s r)) (allQuestions (snd (complete st s r))))
              = length (data r)
          \<and> map qid (deref (fst (complete st s r)) (allQuestions (snd (complete st s r))))
              = [1..<Suc (length (data r))]
          \<and> (\<forall>n. n < length (data r) \<longrightarrow>
                deref (fst (complete st s r)) (allQuestions (snd (complete st s r))) ! n
                  = processRow (data r ! n) n)"
  proof
    assume a: "errors r = [] \<and> data r = firstRow # rest \<and> missingKeys firstRow = []"
    have c: "deref (fst (complete st s r)) (allQuestions (snd (complete st s r)))
              = processedData (data r)"
      using a complete_accepts [of r firstRow rest st s] by (simp add: allocArray_deref)
    show "deref (fst (complete st s r)) (allQuestions (snd (complete st s r)))
              = processedData (data r)
          \<and> length (deref (fst (complete st s r)) (allQuestions (snd (complete st s r))))
              = length (data r)
          \<and> map qid (deref (fst (complete st s r)) (allQuestions (snd (complete st s r))))
              = [1..<Suc (length (data r))]
          \<and> (\<forall>n. n < length (data r) \<longrightarrow>
                deref (fst (complete st s r)) (allQuestions (snd (complete st s r))) ! n
                  = processRow (data r ! n) n)"
      unfolding c
      by (simp add: processedData_length processedData_ids processedData_nth)
  qed
  have plain: "\<not> isRandom s
        \<longrightarrow> subseq (deref (fst (updateDisplayedQuestions random st s))
                       (displayedQuestions (snd (updateDisplayedQuestions random st s))))
                    (deref st (allQuestions s))"
    by (simp add: update_displayed_plain)
  have shuffled: "(\<forall>k. 0 \<le> random k \<and> random k < 1)
        \<longrightarrow> mset (deref (fst (updateDisplayedQuestions random st s))
                       (displayedQuestions (snd (updateDisplayedQuestions random st s))))
              \<subseteq># mset (deref st (allQuestions s))"
    by (simp add: update_displayed_mset)
  have len1: "length (questions (handleFileUpload1 quizRows)) = length quizRows"
    by (simp add: handleFileUpload1_def initialQuiz_def mapi_def)
  from processedData_ids [of rows] processedData_length [of rows] browse
    quiz_ids1 [of quizRows] len1 quiz1 quiz_ids2 [of quizRows] quiz2 load plain shuffled
  show ?thesis by (intro conjI)
qed

theorem C4_ids_dense_and_stable_witness:
  "map qid (deref (fst loaded) (allQuestions (snd loaded))) = [1, 2]
   \<and> question (deref (fst loaded) (allQuestions (snd loaded)) ! 0) = Some ''Which one?''
   \<and> paper (deref (fst loaded) (allQuestions (snd loaded)) ! 1) = Some ''GS2''
   \<and> qid (deref (fst loaded) (allQuestions (snd loaded)) ! 1) = 2
   \<and> qz_id (questions (handleFileUpload1 [quizRowA, quizRowB]) ! 1) = 2
   \<and> qz_question (questions (handleFileUpload1 [quizRowA, quizRowB]) ! 1) = Some ''Second''
   \<and> qz_correct_option (questions (handleFileUpload1 [quizRowA, quizRowB]) ! 1) = None
   \<and> qz_question (questions (handleFileUpload2 [quizRowA, quizRowB]) ! 0) = Some ''First''
   \<and> subseq [q2, q3] [q1, q2, q3]
   \<and> deref (fst (updateDisplayedQuestions (\<lambda>k. 0) demoStore yearState))
        (displayedQuestions (snd (updateDisplayedQuestions (\<lambda>k. 0) demoStore yearState))) = [q2, q3]
   \<and> mset (deref (fst (updateDisplayedQuestions (\<lambda>k. 0) demoStore shuffledState))
        (displayedQuestions (snd (updateDisplayedQuestions (\<lambda>k. 0) demoStore shuffledState))))
        \<subseteq># mset [q1, q2, q3]"
proof -
  note load = C4_ids_dense_and_stable [where rows = "[goodRow, shortRow]" and i = 1
      and quizRows = "[quizRowA, quizRowB]" and j = 1
      and r = "\<lparr> data = [goodRow, shortRow], errors = [] \<rparr>"
      and firstRow = goodRow and rest = "[shortRow]"
      and st = "fst (loadStart demoStore demoState)"
      and s = "snd (loadStart demoStore demoState)" and random = "\<lambda>k. 0"]
  note first = C4_ids_dense_and_stable [where rows = "[goodRow, shortRow]" and i = 0
      and quizRows = "[quizRowA, quizRowB]" and j = 0
      and r = "\<lparr> data = [goodRow, shortRow], errors = [] \<rparr>"
      and firstRow = goodRow and rest = "[shortRow]"
      and st = demoStore and s = yearState and random = "\<lambda>k. 0"]
  note shuf = C4_ids_dense_and_stable [where rows = "[]" and i = 0
      and quizRows = "[]" and j = 0
      and r = "\<lparr> data = [], errors = [] \<rparr>"
      and firstRow = goodRow and rest = "[]"
      and st = demoStore and s = shuffledState and random = "\<lambda>k. 0"]
  have l: "deref (fst loaded) (allQuestions (snd loaded)) = processedData [goodRow, shortRow]"
    using load by (simp add: loaded_def missing_goodRow)
  have ids: "map qid (processedData [goodRow, shortRow]) = [1, 2]"
    using load by simp
  have r1: "processedData [goodRow, shortRow] ! 1 = processRow shortRow 1"
    using load by simp
  have r0: "processedData [goodRow, shortRow] ! 0 = processRow goodRow 0"
    using first by simp
  have b: "question (processRow goodRow 0) = Some ''Which one?''"
    "paper (processRow shortRow 1) = Some ''GS2''" "qid (processRow shortRow 1) = 2"
    by (simp_all add: processRow_def nullish_def goodRow_def shortRow_def)
  have z1: "questions (handleFileUpload1 [quizRowA, quizRowB]) ! 1 = quizRow1 quizRowB 1"
    using load by simp
  have z2: "questions (handleFileUpload2 [quizRowA, quizRowB]) ! 0 = quizRow2 quizRowA 0"
    using first by simp
  have zq: "qz_id (quizRow1 quizRowB 1) = 2" "qz_question (quizRow1 quizRowB 1) = Some ''Second''"
    "qz_correct_option (quizRow1 quizRowB 1) = None"
    "qz_question (quizRow2 quizRowA 0) = Some ''First''"
    by (simp_all add: quizRow1_def quizRow2_def orNull_def replacedOrNull_def quizRowA_def
        quizRowB_def)
  have u: "deref (fst (updateDisplayedQuestions (\<lambda>k. 0) demoStore yearState))
        (displayedQuestions (snd (updateDisplayedQuestions (\<lambda>k. 0) demoStore yearState))) = [q2, q3]"
    by (simp add: updateDisplayedQuestions_def yearState_def demoState_def demoStore_def
        noFilters_def deref_def spread_def allocArray_def filterIf_def filterArray_def
        idFilter_def shuffleIf_def resetNavigation_def q1_def q2_def q3_def Let_def)
  have y: "\<not> isRandom yearState" "allQuestions yearState = 0"
    by (simp_all add: yearState_def demoState_def)
  have z: "allQuestions shuffledState = 0"
    by (simp add: shuffledState_def demoState_def)
  have d: "deref demoStore 0 = [q1, q2, q3]"
    by (simp add: demoStore_def deref_def)
  have sub: "subseq [q2, q3] [q1, q2, q3]"
    using first u y d by simp
  have ms: "mset (deref (fst (updateDisplayedQuestions (\<lambda>k. 0) demoStore shuffledState))
        (displayedQuestions (snd (updateDisplayedQuestions (\<lambda>k. 0) demoStore shuffledState))))
        \<subseteq># mset [q1, q2, q3]"
    using shuf z d by simp
  have c1: "map qid (deref (fst loaded) (allQuestions (snd loaded))) = [1, 2]"
    by (simp only: l ids)
  have c2: "question (deref (fst loaded) (allQuestions (snd loaded)) ! 0) = Some ''Which one?''"
    by (simp only: l r0 b)
  have c3: "paper (deref (fst loaded) (allQuestions (snd loaded)) ! 1) = Some ''GS2''"
    and c4: "qid (deref (fst loaded) (allQuestions (snd loaded)) ! 1) = 2"
    by (simp_all only: l r1 b)
  have c5: "qz_id (questions (handleFileUpload1 [quizRowA, quizRowB]) ! 1) = 2"
    and c6: "qz_question (questions (handleFileUpload1 [quizRowA, quizRowB]) ! 1) = Some ''Second''"
    and c7: "qz_correct_option (questions (handleFileUpload1 [quizRowA, quizRowB]) ! 1) = None"
    by (simp_all only: z1 zq)
  have c8: "qz_question (questions (handleFileUpload2 [quizRowA, quizRowB]) ! 0) = Some ''First''"
    by (simp only: z2 zq)
  from c1 c2 c3 c4 c5 c6 c7 c8 sub u ms show ?thesis
    by (intro conjI)
qed

lemma parse_errors_reject:
  "errors r \<noteq> [] \<Longrightarrow>
   complete st s r =
     (st, s\<lparr>csvError := Some (parseErrorMessage (errors r)), isLoadingCsv := False\<rparr>)"
  by (simp add: complete_def)

text \<open>
  The claim C3 as stated fails when the decoder reports a parse error: the first row has
  all six essential keys, and still the load is rejected (with the parse error message),
  the collection staying empty.
\<close>

theorem C3_good_first_row_rejected_counterexample:
  "missingKeys (data withWarning ! 0) = []
   \<and> csvError (snd (complete (fst (loadStart demoStore demoState))
         (snd (loadStart demoStore demoState)) withWarning))
       = Some ''Error parsing CSV: Row 1: Too few fields... Check console.''
   \<and> deref (fst (complete (fst (loadStart demoStore demoState))
         (snd (loadStart demoStore demoState)) withWarning))
       (allQuestions (snd (complete (fst (loadStart demoStore demoState))
         (snd (loadStart demoStore demoState)) withWarning))) = []"
  by (simp add: withWarning_def missing_goodRow complete_def loadStart_def allocArray_def
      deref_def tooFewFields_def parseErrorMessage_def errorLine_def showNat.simps digitChar_def)

text \<open>
  C3, amended. When the decoder reports no parse error and delivers at least one row: the
  missing keys are the essential keys, in their fixed order, that are absent, null or the
  empty string in the first row; if there are any, the load is rejected, the error message
  lists exactly them and the collection is the empty array; if there are none, the load is
  accepted, without error, and the collection is built from all rows.
\<close>

theorem C3_validation_gate:
  "errors r = [] \<Longrightarrow> data r = firstRow # rest \<Longrightarrow>
     missingKeys firstRow =
       filter (\<lambda>key. firstRow key = None \<or> firstRow key = Some Null \<or> firstRow key = Some (Text []))
         requiredTransformedKeys
     \<and> (missingKeys firstRow \<noteq> [] \<longrightarrow>
           csvError (snd (complete (fst (loadStart st s)) (snd (loadStart st s)) r))
             = Some (''CSV data is missing essential content after processing: ''
                      @ join '', '' (missingKeys firstRow)
                      @ ''. Check CSV file and header mapping.'')
         \<and> deref (fst (complete (fst (loadStart st s)) (snd (loadStart st s)) r))
               (allQuestions (snd (complete (fst (loadStart st s)) (snd (loadStart st s)) r))) = []
         \<and> \<not> isLoadingCsv (snd (complete (fst (loadStart st s)) (snd (loadStart st s)) r)))
     \<and> (missingKeys firstRow = [] \<longrightarrow>
           csvError (snd (complete (fst (loadStart st s)) (snd (loadStart st s)) r)) = None
         \<and> deref (fst (complete (fst (loadStart st s)) (snd (loadStart st s)) r))
               (allQuestions (snd (complete (fst (loadStart st s)) (snd (loadStart st s)) r)))
             = processedData (data r)
         \<and> \<not> isLoadingCsv (snd (complete (fst (loadStart st s)) (snd (loadStart st s)) r)))"
proof (intro conjI impI)
  assume e: "errors r = []" and d: "data r = firstRow # rest"
  show "missingKeys firstRow =
       filter (\<lambda>key. firstRow key = None \<or> firstRow key = Some Null \<or> firstRow key = Some (Text []))
         requiredTransformedKeys"
    by (rule missingKeys_exact)
  {
    assume m: "missingKeys firstRow \<noteq> []"
    note c = complete_rejects [OF e d m]
    show "csvError (snd (complete (fst (loadStart st s)) (snd (loadStart st s)) r))
             = Some (''CSV data is missing essential content after processing: ''
                      @ join '', '' (missingKeys firstRow)
                      @ ''. Check CSV file and header mapping.'')"
      by (simp add: c missingMessage_def)
    show "deref (fst (complete (fst (loadStart st s)) (snd (loadStart st s)) r))
               (allQuestions (snd (complete (fst (loadStart st s)) (snd (loadStart st s)) r))) = []"
      by (simp add: c loadStart_empty)
    show "\<not> isLoadingCsv (snd (complete (fst (loadStart st s)) (snd (loadStart st s)) r))"
      by (simp add: c)
  }
  {
    assume m: "missingKeys firstRow = []"
    note c = complete_accepts [OF e d m]
    show "csvError (snd (complete (fst (loadStart st s)) (snd (loadStart st s)) r)) = None"
      by (simp add: c loadStart_empty)
    show "deref (fst (complete (fst (loadStart st s)) (snd (loadStart st s)) r))
               (allQuestions (snd (complete (fst (loadStart st s)) (snd (loadStart st s)) r)))
             = processedData (data r)"
      by (simp add: c allocArray_deref)
    show "\<not> isLoadingCsv (snd (complete (fst (loadStart st s)) (snd (loadStart st s)) r))"
      by (simp add: c)
  }
qed

theorem C3_validation_gate_witness:
  "csvError (snd (complete (fst (loadStart demoStore demoState)) (snd (loadStart demoStore demoState))
        \<lparr> data = [badRow, goodRow], errors = [] \<rparr>))
     = Some (''CSV data is missing essential content after processing: ''
              @ ''option_c, option_d, correct_option'' @ ''. Check CSV file and header mapping.'')
   \<and> deref (fst (complete (fst (loadStart demoStore demoState)) (snd (loadStart demoStore demoState))
        \<lparr> data = [badRow, goodRow], errors = [] \<rparr>))
       (allQuestions (snd (complete (fst (loadStart demoStore demoState))
        (snd (loadStart demoStore demoState)) \<lparr> data = [badRow, goodRow], errors = [] \<rparr>))) = []
   \<and> csvError (snd loaded) = None
   \<and> deref (fst loaded) (allQuestions (snd loaded)) = processedData [goodRow, shortRow]"
  using C3_validation_gate [of "\<lparr> data = [badRow, goodRow], errors = [] \<rparr>" badRow "[goodRow]"
      demoStore demoState]
    C3_validation_gate [of "\<lparr> data = [goodRow, shortRow], errors = [] \<rparr>" goodRow "[shortRow]"
      demoStore demoState]
  by (simp add: missing_badRow missing_goodRow loaded_def)


section \<open>Subject candidates\<close>

lemma set_keepTruthy: "set (keepTruthy vs) = {v. v \<noteq> [] \<and> Some v \<in> set vs}"
  by (induction vs rule: keepTruthy.induct) auto

lemma set_uniq: "set (uniq xs) = set xs"
  by (simp add: uniq_def)

lemma distinct_uniq: "distinct (uniq xs)"
  by (simp add: uniq_def)

lemma set_subjectsToShow:
  "set (subjectsToShow qs p) =
     {v. v \<noteq> [] \<and> (\<exists>q \<in> set qs. (p = [] \<or> paper q = Some p) \<and> subject q = Some v)}"
  by (auto simp: subjectsToShow_def set_uniq set_keepTruthy image_iff) metis+

lemma distinct_subjectsToShow: "distinct (subjectsToShow qs p) \<and> sorted (subjectsToShow qs p)"
  by (simp add: subjectsToShow_def distinct_uniq)

text \<open>
  C7. The subject candidates computed with a paper selected are among those computed with
  no paper selected; the candidates are the non-empty subject values of the questions whose
  paper is the selected one (of all questions when no paper is selected), each listed
  once. The same holds for the state variable the effect sets.
\<close>

theorem C7_subject_candidates:
  "set (subjectsToShow qs p) \<subseteq> set (subjectsToShow qs [])
   \<and> set (subjectsToShow qs p) =
       {v. v \<noteq> [] \<and> (\<exists>q \<in> set qs. (p = [] \<or> paper q = Some p) \<and> subject q = Some v)}
   \<and> distinct (subjectsToShow qs p)
   \<and> set (availableSubjects (deriveSubjects st s))
       \<subseteq> set (availableSubjects (deriveSubjects st (s\<lparr>filters := (filters s)\<lparr>flt_paper := []\<rparr>\<rparr>)))
   \<and> (\<not> guarded st s \<longrightarrow>
         availableSubjects (deriveSubjects st s)
           = subjectsToShow (deref st (allQuestions s)) (flt_paper (filters s)))"
proof -
  have sub: "\<And>qs p. set (subjectsToShow qs p) \<subseteq> set (subjectsToShow qs [])"
    by (auto simp: set_subjectsToShow)
  have "set (availableSubjects (deriveSubjects st s))
       \<subseteq> set (availableSubjects (deriveSubjects st (s\<lparr>filters := (filters s)\<lparr>flt_paper := []\<rparr>\<rparr>)))"
    using sub [of "deref st (allQuestions s)" "flt_paper (filters s)"]
    by (simp add: deriveSubjects_def)
  then show ?thesis
    using sub [of qs p] set_subjectsToShow [of qs p] distinct_subjectsToShow [of qs p]
    by (simp add: deriveSubjects_def guarded_def)
qed

theorem C7_subject_candidates_witness:
  "availableSubjects (deriveSubjects demoStore shuffledState) = [''History'', ''Polity'']
   \<and> availableSubjects (deriveSubjects demoStore demoState) = [''Ethics'', ''History'', ''Polity'']
   \<and> set [''History'', ''Polity''] \<subseteq> set [''Ethics'', ''History'', ''Polity'']"
proof -
  have g: "\<not> guarded demoStore shuffledState" "\<not> guarded demoStore demoState"
    by (simp_all add: guarded_def shuffledState_def demoState_def demoStore_def deref_def)
  have d: "deref demoStore (allQuestions shuffledState) = [q1, q2, q3]"
    "deref demoStore (allQuestions demoState) = [q1, q2, q3]"
    by (simp_all add: shuffledState_def demoState_def demoStore_def deref_def)
  have f: "flt_paper (filters shuffledState) = ''GS1''" "flt_paper (filters demoState) = []"
    by (simp_all add: shuffledState_def demoState_def noFilters_def)
  have s1: "subjectsToShow [q1, q2, q3] ''GS1'' = [''History'', ''Polity'']"
    by (simp add: subjectsToShow_def uniq_def q1_def q2_def q3_def)
  have s2: "subjectsToShow [q1, q2, q3] [] = [''Ethics'', ''History'', ''Polity'']"
    by (simp add: subjectsToShow_def uniq_def q1_def q2_def q3_def)
  have a: "availableSubjects (deriveSubjects demoStore shuffledState)
      = subjectsToShow (deref demoStore (allQuestions shuffledState)) (flt_paper (filters shuffledState))"
    using C7_subject_candidates [of "[]" "[]" demoStore shuffledState] g(1) by blast
  have b: "availableSubjects (deriveSubjects demoStore demoState)
      = subjectsToShow (deref demoStore (allQuestions demoState)) (flt_paper (filters demoState))"
    using C7_subject_candidates [of "[]" "[]" demoStore demoState] g(2) by blast
  show ?thesis
    by (simp add: a b d f s1 s2)
qed

end
